theory Spec2Isabelle
  imports Complex_Main
begin

section \<open>Common ground: exceptions and numbers\<close>

text \<open>
  The two modules \<^verbatim>\<open>distribution_math/gaus_1D.py\<close> and
  \<^verbatim>\<open>distributions/multinomial.py\<close> are embedded below. Python exceptions
  are values of the type \<open>error\<close>; a method that can raise returns a sum
  (\<open>Inl\<close> the exception), and a method that mutates \<open>self\<close> before it
  raises returns the object as it is left together with the exception, if any.
  A Python number is a real, standing for a finite double: \<open>/\<close> is Python 3 true
  division, with the \<^verbatim>\<open>ZeroDivisionError\<close> of a zero divisor written out.
  The rounding of the significand is outside the model, and so are
  \<^verbatim>\<open>nan\<close> and infinite attribute values. Where a property depends on the
  range of a double, in \<^verbatim>\<open>Gaus1D.KL_Div\<close> and in \<^verbatim>\<open>float\<close> on a
  decoded integer, overflow and underflow are written out with the type
  \<open>pyfloat\<close> below. \<^verbatim>\<open>update\<close>, \<^verbatim>\<open>__mul__\<close> and the methods
  of the categorical distribution compute in the reals.
\<close>

datatype error =
  ValueError | AssertionError | TypeError | KeyError | ZeroDivisionError | AttributeError
  | OverflowError

text \<open>
  The result of a floating-point operation: a finite number, an infinity or
  \<^verbatim>\<open>nan\<close>. A result of magnitude \<open>2^1024 - 2^970\<close> or more rounds to an
  infinity (or is an overflow), and one of magnitude \<open>2^-1075\<close> or less rounds to
  zero; the sign of a zero is not kept.
\<close>

datatype pyfloat = Fin real | PosInf | NegInf | NaN

definition float_overflow :: real where
  "float_overflow = 2 ^ 1024 - 2 ^ 970"

definition float_underflow :: real where
  "float_underflow = 1 / 2 ^ 1075"

definition fl :: "real \<Rightarrow> pyfloat" where
  "fl x =
     (if float_overflow \<le> x then PosInf
      else if x \<le> - float_overflow then NegInf
      else if \<bar>x\<bar> \<le> float_underflow then Fin 0
      else Fin x)"

fun fneg :: "pyfloat \<Rightarrow> pyfloat" where
  "fneg (Fin a) = Fin (- a)"
| "fneg PosInf = NegInf"
| "fneg NegInf = PosInf"
| "fneg NaN = NaN"

fun fadd :: "pyfloat \<Rightarrow> pyfloat \<Rightarrow> pyfloat" where
  "fadd (Fin a) (Fin b) = fl (a + b)"
| "fadd NaN y = NaN"
| "fadd x NaN = NaN"
| "fadd PosInf NegInf = NaN"
| "fadd NegInf PosInf = NaN"
| "fadd PosInf y = PosInf"
| "fadd NegInf y = NegInf"
| "fadd (Fin a) y = y"

definition fsub :: "pyfloat \<Rightarrow> pyfloat \<Rightarrow> pyfloat" where
  "fsub x y = fadd x (fneg y)"

fun fmul :: "pyfloat \<Rightarrow> pyfloat \<Rightarrow> pyfloat" where
  "fmul (Fin a) (Fin b) = fl (a * b)"
| "fmul NaN y = NaN"
| "fmul x NaN = NaN"
| "fmul (Fin a) y = (if a = 0 then NaN else if 0 < a then y else fneg y)"
| "fmul x (Fin b) = (if b = 0 then NaN else if 0 < b then x else fneg x)"
| "fmul PosInf y = y"
| "fmul NegInf y = fneg y"

text \<open>
  \<^verbatim>\<open>x / y\<close> on floats: a zero divisor raises whatever the dividend is.
\<close>

fun fdiv :: "pyfloat \<Rightarrow> pyfloat \<Rightarrow> error + pyfloat" where
  "fdiv x (Fin b) =
     (if b = 0 then Inl ZeroDivisionError
      else case x of
             Fin a \<Rightarrow> Inr (fl (a / b))
           | NaN \<Rightarrow> Inr NaN
           | _ \<Rightarrow> Inr (if 0 < b then x else fneg x))"
| "fdiv x NaN = Inr NaN"
| "fdiv (Fin a) y = Inr (Fin 0)"
| "fdiv x y = Inr NaN"

text \<open>
  \<^verbatim>\<open>x**2\<close> on a float: a finite base whose square is out of range raises
  \<^verbatim>\<open>OverflowError\<close>.
\<close>

fun fsquare :: "pyfloat \<Rightarrow> error + pyfloat" where
  "fsquare (Fin a) = (if float_overflow \<le> a * a then Inl OverflowError else Inr (fl (a * a)))"
| "fsquare NaN = Inr NaN"
| "fsquare x = Inr PosInf"

text \<open>\<^verbatim>\<open>math.log\<close> on a float.\<close>

fun flog :: "pyfloat \<Rightarrow> error + pyfloat" where
  "flog (Fin a) = (if a \<le> 0 then Inl ValueError else Inr (fl (ln a)))"
| "flog PosInf = Inr PosInf"
| "flog NegInf = Inl ValueError"
| "flog NaN = Inr NaN"

section \<open>The Gaussian: \<^verbatim>\<open>gaus_1D.py\<close>\<close>

text \<open>
  The attributes of a \<^verbatim>\<open>Gaus1D\<close> object. The fields carry the prefix
  \<open>g_\<close>; \<^verbatim>\<open>n\<close> and \<^verbatim>\<open>M2\<close> are optional because
  \<^verbatim>\<open>__mul__\<close> sets them to \<^verbatim>\<open>None\<close>.
\<close>

record Gaus1D =
  g_dist_type :: string
  g_mean :: real
  g_variance :: real
  g_n :: "real option"
  g_M2 :: "real option"

text \<open>
  \<^verbatim>\<open>Gaus1D.__init__\<close>: the two \<^verbatim>\<open>assert\<close> statements, in the
  order of the source, then the four assignments.
\<close>

definition Gaus1D_init :: "real \<Rightarrow> real \<Rightarrow> real \<Rightarrow> error + Gaus1D" where
  "Gaus1D_init mean variance prior_strength =
     (if \<not> variance \<noteq> 0 then Inl AssertionError
      else if \<not> prior_strength \<ge> 2 then Inl AssertionError
      else Inr \<lparr> g_dist_type = ''Gaus1D'', g_mean = mean, g_variance = variance,
                 g_n = Some prior_strength,
                 g_M2 = Some (variance * (prior_strength - 1)) \<rparr>)"

text \<open>
  \<^verbatim>\<open>Gaus1D.set_prior_strength\<close>: the object is left as it was when the
  assertion fails.
\<close>

definition Gaus1D_set_prior_strength :: "Gaus1D \<Rightarrow> real \<Rightarrow> Gaus1D \<times> error option" where
  "Gaus1D_set_prior_strength g prior_strength =
     (if \<not> prior_strength \<ge> 2 then (g, Some AssertionError)
      else (g\<lparr> g_n := Some prior_strength,
                g_M2 := Some (g_variance g * (prior_strength - 1)) \<rparr>, None))"

text \<open>
  \<^verbatim>\<open>Gaus1D.update\<close>, statement by statement. Every assignment to
  \<^verbatim>\<open>self\<close> made before an exception stays in the returned object. The
  \<^verbatim>\<open>debug\<close> flag only prints and is left out. The arithmetic is that of
  the reals: a result that leaves the range of a double (an underflow to zero, an
  overflow to an infinity) is not modelled here.
\<close>

definition Gaus1D_update :: "Gaus1D \<Rightarrow> real \<Rightarrow> Gaus1D \<times> error option" where
  "Gaus1D_update g point =
     (case g_n g of
        None \<Rightarrow> (g, Some TypeError)
      | Some k \<Rightarrow>
          let g1 = g\<lparr> g_n := Some (k + 1) \<rparr>;
              delta = point - g_mean g1
          in if k + 1 = 0 then (g1, Some ZeroDivisionError)
             else
               let g2 = g1\<lparr> g_mean := g_mean g1 + delta / (k + 1) \<rparr>
               in (case g_M2 g2 of
                     None \<Rightarrow> (g2, Some TypeError)
                   | Some m \<Rightarrow>
                       let m' = m + delta * (point - g_mean g2);
                           g3 = g2\<lparr> g_M2 := Some m' \<rparr>
                       in if (k + 1) - 1 = 0 then (g3, Some ZeroDivisionError)
                          else
                            let g4 = g3\<lparr> g_variance := m' / ((k + 1) - 1) \<rparr>
                            in if g_variance g4 = 0 then (g4, Some AssertionError)
                               else (g4, None)))"

text \<open>
  \<^verbatim>\<open>Gaus1D.__mul__\<close>. The argument is a \<^verbatim>\<open>Gaus1D\<close> by typing, so the
  \<^verbatim>\<open>isinstance\<close> test cannot fail. \<^verbatim>\<open>x**-1\<close> is the reciprocal; the
  outer one raises \<^verbatim>\<open>ZeroDivisionError\<close> when the two reciprocals cancel.
  The result is a copy of \<^verbatim>\<open>self\<close> with four attributes overwritten.
\<close>

definition Gaus1D_mul :: "Gaus1D \<Rightarrow> Gaus1D \<Rightarrow> error + Gaus1D" where
  "Gaus1D_mul self g2 =
     (if g_variance self = 0 \<or> g_variance g2 = 0 then Inl ValueError
      else
        let s = inverse (g_variance self) + inverse (g_variance g2)
        in if s = 0 then Inl ZeroDivisionError
           else
             let variance_3 = inverse s;
                 mean_3 = variance_3 * inverse (g_variance self) * g_mean self
                          + variance_3 * inverse (g_variance g2) * g_mean g2
             in Inr (self\<lparr> g_variance := variance_3, g_mean := mean_3,
                            g_M2 := None, g_n := None \<rparr>))"

text \<open>
  \<^verbatim>\<open>Gaus1D.KL_Div\<close>, with the range of a double written out.
  \<^verbatim>\<open>v**0.5\<close> is the square root for \<open>v \<ge> 0\<close> (the root of a double is
  in range) and a complex number for \<open>v < 0\<close>, which \<^verbatim>\<open>math.log\<close>
  rejects with \<^verbatim>\<open>TypeError\<close>; the division by \<^verbatim>\<open>sig_1\<close> comes
  before that. The operands of the sum are then evaluated from left to right:
  \<^verbatim>\<open>math.log(sig_2/sig_1)\<close>, \<^verbatim>\<open>sig_1**2\<close>,
  \<^verbatim>\<open>(mu_1-mu_2)**2\<close>, \<^verbatim>\<open>sig_2**2\<close>, its double, the quotient.
  \<open>kl_formula\<close> is the assignment to \<^verbatim>\<open>KL\<close> for real
  \<^verbatim>\<open>sig_1\<close> and \<^verbatim>\<open>sig_2\<close>.
\<close>

definition kl_formula :: "real \<Rightarrow> real \<Rightarrow> real \<Rightarrow> real \<Rightarrow> error + pyfloat" where
  "kl_formula sig_1 sig_2 mu_1 mu_2 =
     (case fdiv (Fin sig_2) (Fin sig_1) of Inl e \<Rightarrow> Inl e | Inr ratio \<Rightarrow>
     (case flog ratio of Inl e \<Rightarrow> Inl e | Inr log_ratio \<Rightarrow>
     (case fsquare (Fin sig_1) of Inl e \<Rightarrow> Inl e | Inr sq_1 \<Rightarrow>
     (case fsquare (fsub (Fin mu_1) (Fin mu_2)) of Inl e \<Rightarrow> Inl e | Inr sq_d \<Rightarrow>
     (case fsquare (Fin sig_2) of Inl e \<Rightarrow> Inl e | Inr sq_2 \<Rightarrow>
     (case fdiv (fadd sq_1 sq_d) (fmul (Fin 2) sq_2) of Inl e \<Rightarrow> Inl e | Inr q \<Rightarrow>
        Inr (fsub (fadd log_ratio q) (Fin 0.5))))))))"

definition Gaus1D_KL_Div :: "Gaus1D \<Rightarrow> Gaus1D \<Rightarrow> error + pyfloat" where
  "Gaus1D_KL_Div self g2 =
     (if g_variance self = 0 then Inl ZeroDivisionError
      else if g_variance self < 0 \<or> g_variance g2 < 0 then Inl TypeError
      else
        let sig_1 = sqrt (g_variance self);
            sig_2 = sqrt (g_variance g2);
            mu_1 = g_mean self;
            mu_2 = g_mean g2
        in kl_formula sig_1 sig_2 mu_1 mu_2)"

text \<open>
  The update rule in the words of the specification, on the triple
  (n, mean, sumSquaredDeviation): the five numbered steps, returning the new triple
  and the new variance.
\<close>

definition welford_spec :: "real \<times> real \<times> real \<Rightarrow> real \<Rightarrow> real \<times> real \<times> real \<times> real" where
  "welford_spec s point =
     (case s of (n, mean, ssd) \<Rightarrow>
        let n1 = n + 1;
            delta = point - mean;
            mean1 = mean + delta / n1;
            ssd1 = ssd + delta * (point - mean1);
            variance1 = ssd1 / (n1 - 1)
        in (n1, mean1, ssd1, variance1))"

text \<open>
  An independent reference: the mean and the unbiased sample variance of a list of
  points, computed in two passes.
\<close>

definition sample_mean :: "real list \<Rightarrow> real" where
  "sample_mean xs = sum_list xs / real (length xs)"

definition sum_sq_dev :: "real list \<Rightarrow> real" where
  "sum_sq_dev xs = (\<Sum>x\<leftarrow>xs. (x - sample_mean xs)\<^sup>2)"

definition sample_variance :: "real list \<Rightarrow> real" where
  "sample_variance xs = sum_sq_dev xs / (real (length xs) - 1)"

section \<open>The categorical distribution: \<^verbatim>\<open>multinomial.py\<close>\<close>

text \<open>
  Class references, dictionary keys and label targets are Python values of two kinds,
  integers and strings. A \<^verbatim>\<open>dict\<close> is an association list in insertion
  order with distinct keys.
\<close>

datatype pyval = IntV int | StrV string

definition is_int :: "pyval \<Rightarrow> bool" where
  "is_int v = (case v of IntV _ \<Rightarrow> True | StrV _ \<Rightarrow> False)"

text \<open>\<^verbatim>\<open>v in range(size)\<close> (the argument is \<open>sz\<close> here); a string is never in a range.\<close>

definition in_range :: "pyval \<Rightarrow> int \<Rightarrow> bool" where
  "in_range v sz = (case v of IntV i \<Rightarrow> 0 \<le> i \<and> i < sz | StrV _ \<Rightarrow> False)"

text \<open>\<^verbatim>\<open>range(size)\<close> as the list of its elements.\<close>

definition py_range :: "int \<Rightarrow> pyval list" where
  "py_range sz = map (\<lambda>i. IntV (int i)) [0..<nat sz]"

text \<open>
  \<^verbatim>\<open>d[k] = v\<close>: an existing key keeps its position, a new key goes to the end.
\<close>

fun dict_set :: "('k \<times> 'v) list \<Rightarrow> 'k \<Rightarrow> 'v \<Rightarrow> ('k \<times> 'v) list" where
  "dict_set [] k v = [(k, v)]"
| "dict_set ((k', v') # d) k v = (if k' = k then (k, v) # d else (k', v') # dict_set d k v)"

text \<open>
  The attributes of a \<^verbatim>\<open>Multinomial\<close> object, with the prefix \<open>m_\<close>
  (\<open>m_n\<close> is \<^verbatim>\<open>_n\<close>, \<open>m_p\<close> is \<^verbatim>\<open>_p\<close>). A count is optional
  because \<^verbatim>\<open>__mul__\<close> stores \<^verbatim>\<open>None\<close>.
\<close>

record Multinomial =
  m_dist_type :: string
  m_n :: "(pyval \<times> real option) list"
  m_p :: "(pyval \<times> real) list"
  m_size :: int
  m_labeled :: bool
  m_labels :: "(pyval \<times> pyval) list"

text \<open>
  \<^verbatim>\<open>Multinomial.__init__\<close>. The message of the \<^verbatim>\<open>ValueError\<close> is
  formatted with \<^verbatim>\<open>self.dist_type\<close>, which is assigned only two lines
  later and is no class attribute: the guard therefore ends in
  \<^verbatim>\<open>AttributeError\<close>, before the \<^verbatim>\<open>ValueError\<close> exists.
\<close>

definition Multinomial_init :: "pyval \<Rightarrow> real \<Rightarrow> error + Multinomial" where
  "Multinomial_init sz prior_strength =
     (case sz of
        StrV _ \<Rightarrow> Inl AttributeError
      | IntV k \<Rightarrow>
          if k < 1 then Inl AttributeError
          else Inr \<lparr> m_dist_type = ''Multinomial'',
                     m_n = map (\<lambda>i. (i, Some prior_strength)) (py_range k),
                     m_p = map (\<lambda>i. (i, 1 / real_of_int k)) (py_range k),
                     m_size = k, m_labeled = False, m_labels = [] \<rparr>)"

definition reset_labels :: "Multinomial \<Rightarrow> Multinomial" where
  "reset_labels m = m\<lparr> m_labels := [], m_labeled := False \<rparr>"

text \<open>
  The loop of \<^verbatim>\<open>Multinomial.relabel\<close> over \<^verbatim>\<open>labels.items()\<close>, with
  the two dictionaries of observed keys and targets as lists; \<open>True\<close> when no pair
  raises.
\<close>

fun relabel_loop :: "int \<Rightarrow> (pyval \<times> pyval) list \<Rightarrow> pyval list \<Rightarrow> pyval list \<Rightarrow> bool" where
  "relabel_loop sz [] observed_labels observed_values = True"
| "relabel_loop sz ((k, v) # rest) observed_labels observed_values =
     (if \<not> is_int v \<or> \<not> in_range v sz \<or> is_int k
         \<or> k \<in> set observed_labels \<or> v \<in> set observed_values
      then False
      else relabel_loop sz rest (k # observed_labels) (v # observed_values))"

text \<open>
  \<^verbatim>\<open>Multinomial.relabel\<close>. The argument is a dictionary by typing. Every
  \<^verbatim>\<open>raise\<close> comes before the two assignments, so a failed call leaves the
  object as it was. The method never reads \<^verbatim>\<open>self.labeled\<close>.
\<close>

definition relabel :: "Multinomial \<Rightarrow> (pyval \<times> pyval) list \<Rightarrow> error + Multinomial" where
  "relabel m labels =
     (if int (length labels) \<noteq> m_size m then Inl ValueError
      else if \<not> relabel_loop (m_size m) labels [] [] then Inl ValueError
      else Inr (m\<lparr> m_labels := labels, m_labeled := True \<rparr>))"

text \<open>
  \<^verbatim>\<open>Multinomial._label_to_index\<close>. In the \<^verbatim>\<open>except\<close> branch the
  \<^verbatim>\<open>KeyError\<close> is constructed and dropped (there is no \<^verbatim>\<open>raise\<close>),
  so a key that is no label is passed through. The final
  \<^verbatim>\<open>if lookup_i not in range(self.size):\<close> has no statement under it in the
  source; the test is evaluated for nothing and \<^verbatim>\<open>lookup_i\<close> is returned
  in both cases.
\<close>

definition label_to_index :: "Multinomial \<Rightarrow> pyval \<Rightarrow> pyval" where
  "label_to_index m i =
     (let lookup_i =
            (if m_labeled m = True
             then (case map_of (m_labels m) i of Some v \<Rightarrow> v | None \<Rightarrow> i)
             else i)
      in if \<not> in_range lookup_i (m_size m) then lookup_i else lookup_i)"

definition set_p :: "Multinomial \<Rightarrow> pyval \<Rightarrow> real \<Rightarrow> Multinomial" where
  "set_p m i p = (let index = label_to_index m i in m\<lparr> m_p := dict_set (m_p m) index p \<rparr>)"

definition set_n :: "Multinomial \<Rightarrow> pyval \<Rightarrow> real option \<Rightarrow> Multinomial" where
  "set_n m i c = (let index = label_to_index m i in m\<lparr> m_n := dict_set (m_n m) index c \<rparr>)"

text \<open>\<^verbatim>\<open>get_p\<close> and \<^verbatim>\<open>get_n\<close>: a missing key raises \<^verbatim>\<open>KeyError\<close>.\<close>

definition get_p :: "Multinomial \<Rightarrow> pyval \<Rightarrow> error + real" where
  "get_p m class_label =
     (let index = label_to_index m class_label
      in case map_of (m_p m) index of None \<Rightarrow> Inl KeyError | Some p \<Rightarrow> Inr p)"

definition get_n :: "Multinomial \<Rightarrow> pyval \<Rightarrow> error + real option" where
  "get_n m class_label =
     (let index = label_to_index m class_label
      in case map_of (m_n m) index of None \<Rightarrow> Inl KeyError | Some c \<Rightarrow> Inr c)"

text \<open>
  The values of \<^verbatim>\<open>_n\<close> as numbers: \<open>None\<close> when one of them is
  \<^verbatim>\<open>None\<close>, where \<^verbatim>\<open>sum\<close> raises \<^verbatim>\<open>TypeError\<close>.
\<close>

fun numeric_items :: "(pyval \<times> real option) list \<Rightarrow> (pyval \<times> real) list option" where
  "numeric_items [] = Some []"
| "numeric_items ((k, None) # d) = None"
| "numeric_items ((k, Some c) # d) =
     (case numeric_items d of None \<Rightarrow> None | Some r \<Rightarrow> Some ((k, c) # r))"

text \<open>
  \<^verbatim>\<open>Multinomial.update\<close>. The \<^verbatim>\<open>try\<close> block swallows the
  \<^verbatim>\<open>KeyError\<close> of a missing index and the \<^verbatim>\<open>TypeError\<close> of a
  \<^verbatim>\<open>None\<close> count (it prints and goes on). The division raises when the
  total is zero and there is a class to divide for; \<^verbatim>\<open>_p\<close> is assigned only
  after the whole comprehension succeeded.
\<close>

definition Multinomial_update :: "Multinomial \<Rightarrow> pyval \<Rightarrow> real \<Rightarrow> Multinomial \<times> error option" where
  "Multinomial_update m class_label weight =
     (let index = label_to_index m class_label;
          m1 = (case map_of (m_n m) index of
                  Some (Some c) \<Rightarrow> m\<lparr> m_n := dict_set (m_n m) index (Some (c + weight)) \<rparr>
                | _ \<Rightarrow> m)
      in case numeric_items (m_n m1) of
           None \<Rightarrow> (m1, Some TypeError)
         | Some items \<Rightarrow>
             let total = sum_list (map snd items)
             in if total = 0 \<and> items \<noteq> [] then (m1, Some ZeroDivisionError)
                else (m1\<lparr> m_p := map (\<lambda>(k, c). (k, c / total)) items \<rparr>, None))"

text \<open>
  \<^verbatim>\<open>Multinomial.__mul__\<close> allocates: \<^verbatim>\<open>b_new = self.copy()\<close> is a new
  object, and the loop writes to it while it reads the two operands. Objects therefore
  live in a store, a list indexed by address; \<^verbatim>\<open>copy.deepcopy\<close> appends a
  cell holding the same attribute values (the dictionaries are part of the cell, so
  the copy shares nothing). The addresses passed in are those of existing objects.
\<close>

type_synonym store = "Multinomial list"

fun mul_loop :: "store \<Rightarrow> nat \<Rightarrow> nat \<Rightarrow> nat \<Rightarrow> pyval list \<Rightarrow> error + store" where
  "mul_loop h self b1 b_new [] = Inr h"
| "mul_loop h self b1 b_new (i # rest) =
     (case get_p (h ! self) i of
        Inl e \<Rightarrow> Inl e
      | Inr p \<Rightarrow>
          (case get_p (h ! b1) i of
             Inl e \<Rightarrow> Inl e
           | Inr q \<Rightarrow>
               let h1 = h[b_new := (h ! b_new)\<lparr> m_p := dict_set (m_p (h ! b_new)) i (p * q) \<rparr>];
                   h2 = h1[b_new := set_n (h1 ! b_new) i None]
               in mul_loop h2 self b1 b_new rest))"

definition Multinomial_mul :: "store \<Rightarrow> nat \<Rightarrow> nat \<Rightarrow> error + (store \<times> nat)" where
  "Multinomial_mul h self b1 =
     (if m_size (h ! self) \<noteq> m_size (h ! b1) then Inl ValueError
      else
        let b_new = length h;
            h0 = h @ [h ! self]
        in case mul_loop h0 self b1 b_new (py_range (m_size (h0 ! self))) of
             Inl e \<Rightarrow> Inl e
           | Inr h1 \<Rightarrow>
               let norm = sum_list (map snd (m_p (h1 ! b_new)))
               in if norm = 0 \<and> m_p (h1 ! b_new) \<noteq> [] then Inl ZeroDivisionError
                  else Inr (h1[b_new := (h1 ! b_new)
                              \<lparr> m_p := map (\<lambda>(index, p). (index, p / norm)) (m_p (h1 ! b_new)) \<rparr>],
                            b_new))"

text \<open>
  \<^verbatim>\<open>Multinomial.KL_Div\<close>: the loop with its accumulator. A zero \<^verbatim>\<open>q\<close>
  raises \<^verbatim>\<open>ZeroDivisionError\<close>, and \<^verbatim>\<open>math.log\<close> raises
  \<^verbatim>\<open>ValueError\<close> on a quotient that is not positive.
\<close>

fun KL_loop :: "Multinomial \<Rightarrow> Multinomial \<Rightarrow> pyval list \<Rightarrow> real \<Rightarrow> error + real" where
  "KL_loop self m1 [] KL = Inr KL"
| "KL_loop self m1 (i # rest) KL =
     (case get_p self i of
        Inl e \<Rightarrow> Inl e
      | Inr p \<Rightarrow>
          (case get_p m1 i of
             Inl e \<Rightarrow> Inl e
           | Inr q \<Rightarrow>
               if q = 0 then Inl ZeroDivisionError
               else if p / q \<le> 0 then Inl ValueError
               else KL_loop self m1 rest (KL + p * ln (p / q))))"

definition Multinomial_KL_Div :: "Multinomial \<Rightarrow> Multinomial \<Rightarrow> error + real" where
  "Multinomial_KL_Div self m1 =
     (if m_size self \<noteq> m_size m1 then Inl ValueError
      else KL_loop self m1 (py_range (m_size self)) 0)"


text \<open>
  The same loop as \<open>mul_loop\<close> on three objects given by value: what the loop
  computes when \<^verbatim>\<open>b_new\<close> is a different object from both operands.
\<close>

fun mul_loop_obj :: "Multinomial \<Rightarrow> Multinomial \<Rightarrow> Multinomial \<Rightarrow> pyval list \<Rightarrow> error + Multinomial" where
  "mul_loop_obj x y z [] = Inr z"
| "mul_loop_obj x y z (i # rest) =
     (case get_p x i of
        Inl e \<Rightarrow> Inl e
      | Inr p \<Rightarrow>
          (case get_p y i of
             Inl e \<Rightarrow> Inl e
           | Inr q \<Rightarrow>
               mul_loop_obj x y (set_n (z\<lparr> m_p := dict_set (m_p z) i (p * q) \<rparr>) i None) rest))"

text \<open>
  The shape of an object that the constructor, \<^verbatim>\<open>relabel\<close>,
  \<^verbatim>\<open>reset_labels\<close> and \<^verbatim>\<open>update\<close> produce: the keys of
  \<^verbatim>\<open>_p\<close> and of \<^verbatim>\<open>_n\<close> are \<^verbatim>\<open>range(size)\<close> in order,
  and no label key is an integer.
\<close>

definition wf_multinomial :: "Multinomial \<Rightarrow> bool" where
  "wf_multinomial m =
     (map fst (m_p m) = py_range (m_size m) \<and> map fst (m_n m) = py_range (m_size m)
      \<and> list_all (\<lambda>kv. \<not> is_int (fst kv)) (m_labels m))"

definition all_p_positive :: "Multinomial \<Rightarrow> bool" where
  "all_p_positive m = list_all (\<lambda>kp. 0 < snd kp) (m_p m)"

text \<open>The probability vector of the product, or the exception.\<close>

definition mul_probabilities :: "store \<Rightarrow> nat \<Rightarrow> nat \<Rightarrow> error + (pyval \<times> real) list" where
  "mul_probabilities h self b1 =
     (case Multinomial_mul h self b1 of
        Inl e \<Rightarrow> Inl e
      | Inr r \<Rightarrow> Inr (m_p (fst r ! snd r)))"

section \<open>Decoding: \<^verbatim>\<open>gaus_1D_from_json\<close> and \<^verbatim>\<open>multinomial_from_json\<close>\<close>

text \<open>
  The decoders work on the value that \<^verbatim>\<open>json.loads\<close> returns; the parser
  itself is the standard library's. An object is the list of its members, with
  distinct names, as the parsed dictionary has them. The parser returns an
  \<^verbatim>\<open>int\<close> of any size for an integer literal and a \<^verbatim>\<open>float\<close> for
  a literal with a fraction or an exponent; the values \<^verbatim>\<open>NaN\<close> and
  \<^verbatim>\<open>Infinity\<close>, which it also accepts, are not covered.
\<close>

datatype json =
  JNull | JBool bool | JInt int | JFloat real | JStr string | JArr "json list"
  | JObj "(string \<times> json) list"

text \<open>
  \<^verbatim>\<open>obj[key]\<close>: a missing member raises \<^verbatim>\<open>KeyError\<close>, and a value
  that is no dictionary cannot be subscripted with a string.
\<close>

definition json_getitem :: "json \<Rightarrow> string \<Rightarrow> error + json" where
  "json_getitem obj key =
     (case obj of
        JObj members \<Rightarrow> (case map_of members key of None \<Rightarrow> Inl KeyError | Some v \<Rightarrow> Inr v)
      | _ \<Rightarrow> Inl TypeError)"

text \<open>
  \<^verbatim>\<open>float(v)\<close> on a decoded value. A float is itself; an integer that
  rounds to a double is converted and a larger one raises
  \<^verbatim>\<open>OverflowError\<close>; a boolean converts to 1 or 0; Python's parser of
  number text is a parameter, \<open>float_of_text\<close>; \<^verbatim>\<open>None\<close>, a list and a
  dictionary raise \<^verbatim>\<open>TypeError\<close>.
\<close>

definition py_float :: "(string \<Rightarrow> real option) \<Rightarrow> json \<Rightarrow> error + real" where
  "py_float float_of_text v =
     (case v of
        JFloat r \<Rightarrow> Inr r
      | JInt i \<Rightarrow>
          if float_overflow \<le> \<bar>real_of_int i\<bar> then Inl OverflowError
          else Inr (real_of_int i)
      | JBool b \<Rightarrow> Inr (if b then 1 else 0)
      | JStr t \<Rightarrow> (case float_of_text t of None \<Rightarrow> Inl ValueError | Some r \<Rightarrow> Inr r)
      | _ \<Rightarrow> Inl TypeError)"

text \<open>
  \<^verbatim>\<open>str(v)\<close>: a string is itself; the text Python prints for the other
  values is a parameter, \<open>repr_text\<close>.
\<close>

definition py_str :: "(json \<Rightarrow> string) \<Rightarrow> json \<Rightarrow> string" where
  "py_str repr_text v = (case v of JStr t \<Rightarrow> t | _ \<Rightarrow> repr_text v)"

text \<open>
  \<^verbatim>\<open>gaus_1D_from_json\<close>. The whole body is inside \<^verbatim>\<open>try\<close> with a
  bare \<^verbatim>\<open>except\<close>, so every exception becomes \<^verbatim>\<open>ValueError\<close>.
  All five attributes of the fresh \<^verbatim>\<open>Gaus1D(0,1,2)\<close> are overwritten.
\<close>

definition gaus_1D_from_json ::
  "(string \<Rightarrow> real option) \<Rightarrow> (json \<Rightarrow> string) \<Rightarrow> json \<Rightarrow> error + Gaus1D" where
  "gaus_1D_from_json float_of_text repr_text obj =
     (case json_getitem obj ''mean'' of Inl _ \<Rightarrow> Inl ValueError | Inr j1 \<Rightarrow>
     (case py_float float_of_text j1 of Inl _ \<Rightarrow> Inl ValueError | Inr mean \<Rightarrow>
     (case json_getitem obj ''variance'' of Inl _ \<Rightarrow> Inl ValueError | Inr j2 \<Rightarrow>
     (case py_float float_of_text j2 of Inl _ \<Rightarrow> Inl ValueError | Inr variance \<Rightarrow>
     (case json_getitem obj ''M2'' of Inl _ \<Rightarrow> Inl ValueError | Inr j3 \<Rightarrow>
     (case py_float float_of_text j3 of Inl _ \<Rightarrow> Inl ValueError | Inr M2 \<Rightarrow>
     (case json_getitem obj ''n'' of Inl _ \<Rightarrow> Inl ValueError | Inr j4 \<Rightarrow>
     (case py_float float_of_text j4 of Inl _ \<Rightarrow> Inl ValueError | Inr n \<Rightarrow>
     (case json_getitem obj ''dist_type'' of Inl _ \<Rightarrow> Inl ValueError | Inr j5 \<Rightarrow>
        Inr \<lparr> g_dist_type = py_str repr_text j5, g_mean = mean, g_variance = variance,
              g_n = Some n, g_M2 = Some M2 \<rparr>)))))))))"

text \<open>
  \<^verbatim>\<open>int(k)\<close> on the text of a member name, for ASCII text: optional white
  space (space, tab, line feed, vertical tab, form feed, carriage return) around an
  optional sign and decimal digits, where single underscores may separate digits.
  Text with characters outside ASCII is not covered.
\<close>

definition is_space :: "char \<Rightarrow> bool" where
  "is_space c = ((of_char c :: nat) \<in> {9, 10, 11, 12, 13, 32})"

definition is_digit :: "char \<Rightarrow> bool" where
  "is_digit c = (48 \<le> (of_char c :: nat) \<and> (of_char c :: nat) \<le> 57)"

definition digit_value :: "char \<Rightarrow> int" where
  "digit_value c = int (of_char c) - 48"

fun digits_to_int :: "string \<Rightarrow> int \<Rightarrow> int option" where
  "digits_to_int [] acc = Some acc"
| "digits_to_int [c] acc = (if is_digit c then Some (10 * acc + digit_value c) else None)"
| "digits_to_int (c # d # ds) acc =
     (if is_digit c then digits_to_int (d # ds) (10 * acc + digit_value c)
      else if c = CHR ''_'' \<and> is_digit d then digits_to_int ds (10 * acc + digit_value d)
      else None)"

definition py_int :: "string \<Rightarrow> int option" where
  "py_int t =
     (let u = rev (dropWhile is_space (rev (dropWhile is_space t)));
          negative = (u \<noteq> [] \<and> hd u = CHR ''-'');
          body = (if u \<noteq> [] \<and> (hd u = CHR ''-'' \<or> hd u = CHR ''+'') then tl u else u)
      in case body of
           [] \<Rightarrow> None
         | c # cs \<Rightarrow>
             if is_digit c
             then map_option (\<lambda>v. if negative then - v else v) (digits_to_int cs (digit_value c))
             else None)"

text \<open>
  The decoded categorical object. The decoder stores what it reads without looking
  at it, so the attributes hold decoded JSON values.
\<close>

record Multinomial_raw =
  r_n :: "(int \<times> json) list"
  r_p :: "(int \<times> json) list"
  r_size :: json
  r_labeled :: json
  r_labels :: json
  r_dist_type :: json

text \<open>\<^verbatim>\<open>v.items()\<close>: only a dictionary has the method.\<close>

definition json_items :: "json \<Rightarrow> error + (string \<times> json) list" where
  "json_items v = (case v of JObj members \<Rightarrow> Inr members | _ \<Rightarrow> Inl AttributeError)"

text \<open>The comprehension \<^verbatim>\<open>{int(k):v for k,v in items}\<close>.\<close>

fun int_keyed :: "(string \<times> json) list \<Rightarrow> (int \<times> json) list \<Rightarrow> error + (int \<times> json) list" where
  "int_keyed [] acc = Inr acc"
| "int_keyed ((k, v) # rest) acc =
     (case py_int k of None \<Rightarrow> Inl ValueError | Some i \<Rightarrow> int_keyed rest (dict_set acc i v))"

text \<open>
  \<^verbatim>\<open>multinomial_from_json\<close>: no \<^verbatim>\<open>try\<close>, so each exception
  propagates as it is.
\<close>

definition multinomial_from_json :: "json \<Rightarrow> error + Multinomial_raw" where
  "multinomial_from_json obj =
     (case json_getitem obj ''_n'' of Inl e \<Rightarrow> Inl e | Inr jn \<Rightarrow>
     (case json_items jn of Inl e \<Rightarrow> Inl e | Inr n_items \<Rightarrow>
     (case int_keyed n_items [] of Inl e \<Rightarrow> Inl e | Inr n \<Rightarrow>
     (case json_getitem obj ''_p'' of Inl e \<Rightarrow> Inl e | Inr jp \<Rightarrow>
     (case json_items jp of Inl e \<Rightarrow> Inl e | Inr p_items \<Rightarrow>
     (case int_keyed p_items [] of Inl e \<Rightarrow> Inl e | Inr p \<Rightarrow>
     (case json_getitem obj ''size'' of Inl e \<Rightarrow> Inl e | Inr sz \<Rightarrow>
     (case json_getitem obj ''labeled'' of Inl e \<Rightarrow> Inl e | Inr labeled \<Rightarrow>
     (case json_getitem obj ''labels'' of Inl e \<Rightarrow> Inl e | Inr labels \<Rightarrow>
     (case json_getitem obj ''dist_type'' of Inl e \<Rightarrow> Inl e | Inr dist_type \<Rightarrow>
        Inr \<lparr> r_n = n, r_p = p, r_size = sz, r_labeled = labeled, r_labels = labels,
              r_dist_type = dist_type \<rparr>))))))))))"

section \<open>Auxiliary notions for the properties\<close>


text \<open>The probability stored under a key, and the unnormalised product of two vectors.\<close>

definition prob_of :: "Multinomial \<Rightarrow> pyval \<Rightarrow> real" where
  "prob_of m k = (case map_of (m_p m) k of None \<Rightarrow> 0 | Some p \<Rightarrow> p)"

definition products :: "Multinomial \<Rightarrow> Multinomial \<Rightarrow> (pyval \<times> real) list" where
  "products x y = map (\<lambda>k. (k, prob_of x k * prob_of y k)) (py_range (m_size x))"

text \<open>
  Sample objects: \<^verbatim>\<open>Gaus1D(2.0, 4.0)\<close> and \<^verbatim>\<open>Gaus1D(2.0, 16.0)\<close> as in the
  module's own main block; \<^verbatim>\<open>Multinomial(2)\<close>; the same after
  \<^verbatim>\<open>relabel({"a":0,"b":1})\<close> and \<^verbatim>\<open>update(0)\<close>; and
  \<^verbatim>\<open>Multinomial(2)\<close> after \<^verbatim>\<open>relabel({"x":1,"y":0})\<close>.
\<close>

definition sample_g1 :: Gaus1D where
  "sample_g1 = \<lparr> g_dist_type = ''Gaus1D'', g_mean = 2, g_variance = 4, g_n = Some 2,
                 g_M2 = Some 4 \<rparr>"

definition sample_g2 :: Gaus1D where
  "sample_g2 = \<lparr> g_dist_type = ''Gaus1D'', g_mean = 2, g_variance = 16, g_n = Some 2,
                 g_M2 = Some 16 \<rparr>"

definition sample_m :: Multinomial where
  "sample_m = \<lparr> m_dist_type = ''Multinomial'', m_n = [(IntV 0, Some 1), (IntV 1, Some 1)],
                m_p = [(IntV 0, 1 / 2), (IntV 1, 1 / 2)], m_size = 2, m_labeled = False,
                m_labels = [] \<rparr>"

definition sample_ab :: Multinomial where
  "sample_ab = \<lparr> m_dist_type = ''Multinomial'', m_n = [(IntV 0, Some 2), (IntV 1, Some 1)],
                 m_p = [(IntV 0, 2 / 3), (IntV 1, 1 / 3)], m_size = 2, m_labeled = True,
                 m_labels = [(StrV ''a'', IntV 0), (StrV ''b'', IntV 1)] \<rparr>"

definition sample_xy :: Multinomial where
  "sample_xy = \<lparr> m_dist_type = ''Multinomial'', m_n = [(IntV 0, Some 1), (IntV 1, Some 1)],
                 m_p = [(IntV 0, 1 / 2), (IntV 1, 1 / 2)], m_size = 2, m_labeled = True,
                 m_labels = [(StrV ''x'', IntV 1), (StrV ''y'', IntV 0)] \<rparr>"

section \<open>Properties of the Gaussian\<close>

subsection \<open>The update is Welford's step\<close>

lemma sum_sq_shift:
  "(\<Sum>x\<leftarrow>xs. (x - a)\<^sup>2) =
     (\<Sum>x\<leftarrow>xs. x\<^sup>2) - 2 * a * sum_list xs + real (length xs) * a\<^sup>2"
  by (induction xs) (simp_all add: power2_eq_square algebra_simps)

text \<open>
  One step of the rule, started from the length, mean and sum of squared deviations of
  a non-empty sample, gives those of the sample with the point appended, and its
  unbiased variance.
\<close>

lemma welford_spec_tracks_sample:
  assumes "xs \<noteq> []"
  shows "welford_spec (real (length xs), sample_mean xs, sum_sq_dev xs) p =
         (real (length (xs @ [p])), sample_mean (xs @ [p]), sum_sq_dev (xs @ [p]),
          sample_variance (xs @ [p]))"
proof -
  define n where "n = real (length xs)"
  define S where "S = sum_list xs"
  define Q where "Q = (\<Sum>x\<leftarrow>xs. x\<^sup>2)"
  have n: "0 < n" using assms by (simp add: n_def)
  have len: "real (length (xs @ [p])) = n + 1" by (simp add: n_def)
  have sm: "sample_mean xs = S / n" by (simp add: sample_mean_def n_def S_def)
  have sm': "sample_mean (xs @ [p]) = (S + p) / (n + 1)"
    by (simp add: sample_mean_def n_def S_def add.commute)
  have alg1: "S / n + (p - S / n) / (n + 1) = (S + p) / (n + 1)"
    using n by (simp add: divide_simps) (simp add: algebra_simps)
  have m1: "sample_mean xs + (p - sample_mean xs) / (n + 1) = sample_mean (xs @ [p])"
    unfolding sm sm' by (rule alg1)
  have a: "sum_sq_dev xs = Q - 2 * (S / n) * S + n * (S / n)\<^sup>2"
    unfolding sum_sq_dev_def sm sum_sq_shift by (simp add: n_def S_def Q_def)
  have b: "sum_sq_dev (xs @ [p]) =
             (Q + p\<^sup>2) - 2 * ((S + p) / (n + 1)) * (S + p) + (n + 1) * ((S + p) / (n + 1))\<^sup>2"
    unfolding sum_sq_dev_def sm' sum_sq_shift len by (simp add: S_def Q_def)
  have alg2: "Q - 2 * (S / n) * S + n * (S / n)\<^sup>2 + (p - S / n) * (p - (S + p) / (n + 1)) =
              (Q + p\<^sup>2) - 2 * ((S + p) / (n + 1)) * (S + p) + (n + 1) * ((S + p) / (n + 1))\<^sup>2"
    using n by (simp add: power2_eq_square divide_simps) (simp add: algebra_simps)
  have m2: "sum_sq_dev xs + (p - sample_mean xs) * (p - sample_mean (xs @ [p])) =
            sum_sq_dev (xs @ [p])"
    unfolding a b sm sm' by (rule alg2)
  have "welford_spec (n, sample_mean xs, sum_sq_dev xs) p =
         (n + 1, sample_mean (xs @ [p]), sum_sq_dev (xs @ [p]), sum_sq_dev (xs @ [p]) / (n + 1 - 1))"
    unfolding welford_spec_def by (simp add: Let_def m1 m2)
  then show ?thesis
    unfolding sample_variance_def len by (simp add: n_def)
qed

text \<open>
  Claim C1. On every object whose counters are numbers and whose divisors \<open>n + 1\<close>
  and \<open>n\<close> are not zero, \<^verbatim>\<open>update(point)\<close> leaves exactly the four values
  that the five steps of the specification compute, in that order (the second factor
  of the increment of \<^verbatim>\<open>M2\<close> uses the updated mean), and raises only when the
  new variance is zero. From mean 2, variance 4 and prior strength 2, the point 3 gives
  \<open>n = 3\<close>, mean \<open>7/3\<close> and variance \<open>7/3\<close>, which is the unbiased variance of the
  sample \<open>2 - \<surd>2, 2 + \<surd>2, 3\<close>, whose first two points have mean 2 and variance 4.
\<close>

theorem gaus_update_welford:
  assumes "g_n g = Some k" and "g_M2 g = Some m" and "k + 1 \<noteq> 0" and "k \<noteq> 0"
    and "welford_spec (k, g_mean g, m) point = (n1, mean1, ssd1, var1)"
  shows "Gaus1D_update g point =
           (g\<lparr> g_n := Some n1, g_mean := mean1, g_M2 := Some ssd1, g_variance := var1 \<rparr>,
            if var1 = 0 then Some AssertionError else None)
         \<and> Gaus1D_init 2 4 2 =
             Inr \<lparr> g_dist_type = ''Gaus1D'', g_mean = 2, g_variance = 4, g_n = Some 2,
                   g_M2 = Some 4 \<rparr>
         \<and> Gaus1D_update \<lparr> g_dist_type = ''Gaus1D'', g_mean = 2, g_variance = 4, g_n = Some 2,
                             g_M2 = Some 4 \<rparr> 3 =
             (\<lparr> g_dist_type = ''Gaus1D'', g_mean = 7 / 3, g_variance = 7 / 3, g_n = Some 3,
                g_M2 = Some (14 / 3) \<rparr>, None)
         \<and> sample_mean [2 - sqrt 2, 2 + sqrt 2] = 2
         \<and> sample_variance [2 - sqrt 2, 2 + sqrt 2] = 4
         \<and> sample_mean [2 - sqrt 2, 2 + sqrt 2, 3] = 7 / 3
         \<and> sample_variance [2 - sqrt 2, 2 + sqrt 2, 3] = 7 / 3"
proof -
  have 1: "Gaus1D_update g point =
           (g\<lparr> g_n := Some n1, g_mean := mean1, g_M2 := Some ssd1, g_variance := var1 \<rparr>,
            if var1 = 0 then Some AssertionError else None)"
    using assms by (auto simp: Gaus1D_update_def welford_spec_def Let_def)
  have 2: "Gaus1D_init 2 4 2 =
             Inr \<lparr> g_dist_type = ''Gaus1D'', g_mean = 2, g_variance = 4, g_n = Some 2,
                   g_M2 = Some 4 \<rparr>"
    by (simp add: Gaus1D_init_def)
  have 3: "Gaus1D_update \<lparr> g_dist_type = ''Gaus1D'', g_mean = 2, g_variance = 4, g_n = Some 2,
                             g_M2 = Some 4 \<rparr> 3 =
             (\<lparr> g_dist_type = ''Gaus1D'', g_mean = 7 / 3, g_variance = 7 / 3, g_n = Some 3,
                g_M2 = Some (14 / 3) \<rparr>, None)"
    by (simp add: Gaus1D_update_def Let_def)
  have 4: "sample_mean [2 - sqrt 2, 2 + sqrt 2] = 2"
    by (simp add: sample_mean_def)
  have 5: "sample_variance [2 - sqrt 2, 2 + sqrt 2] = 4"
    by (simp add: sample_variance_def sum_sq_dev_def sample_mean_def power2_eq_square)
  have 6: "sample_mean [2 - sqrt 2, 2 + sqrt 2, 3] = 7 / 3"
    by (simp add: sample_mean_def)
  have 7: "sample_variance [2 - sqrt 2, 2 + sqrt 2, 3] = 7 / 3"
    by (simp add: sample_variance_def sum_sq_dev_def sample_mean_def power2_eq_square
        field_simps)
  show ?thesis using 1 2 3 4 5 6 7 by blast
qed

theorem gaus_update_welford_witness:
  "g_n \<lparr> g_dist_type = ''Gaus1D'', g_mean = 2, g_variance = 4, g_n = Some 2, g_M2 = Some 4 \<rparr>
     = Some 2
   \<and> g_M2 \<lparr> g_dist_type = ''Gaus1D'', g_mean = 2, g_variance = 4, g_n = Some 2, g_M2 = Some 4 \<rparr>
     = Some 4
   \<and> (2::real) + 1 \<noteq> 0 \<and> (2::real) \<noteq> 0
   \<and> welford_spec (2, 2, 4) 3 = (3, 7 / 3, 14 / 3, 7 / 3)
   \<and> Gaus1D_update \<lparr> g_dist_type = ''Gaus1D'', g_mean = 2, g_variance = 4, g_n = Some 2,
                       g_M2 = Some 4 \<rparr> 3 =
       (\<lparr> g_dist_type = ''Gaus1D'', g_mean = 7 / 3, g_variance = 7 / 3, g_n = Some 3,
          g_M2 = Some (14 / 3) \<rparr>, None)"
proof -
  let ?g = "\<lparr> g_dist_type = ''Gaus1D'', g_mean = 2, g_variance = 4, g_n = Some 2,
              g_M2 = Some 4 \<rparr>"
  have h1: "g_n ?g = Some 2" by simp
  have h2: "g_M2 ?g = Some 4" by simp
  have h3: "(2::real) + 1 \<noteq> 0" by simp
  have h4: "(2::real) \<noteq> 0" by simp
  have h5: "welford_spec (2, g_mean ?g, 4) 3 = (3, 7 / 3, 14 / 3, 7 / 3)"
    by (simp add: welford_spec_def Let_def)
  show ?thesis
    using h5 gaus_update_welford [OF h1 h2 h3 h4 h5] by simp
qed

subsection \<open>The guards on the variance\<close>

lemma gaus_init_fails_iff:
  "Gaus1D_init mean variance ps = Inl AssertionError \<longleftrightarrow> variance = 0 \<or> ps < 2"
  by (auto simp: Gaus1D_init_def)

lemma gaus_init_stores:
  "Gaus1D_init mean variance ps = Inr g0 \<Longrightarrow> g_variance g0 = variance \<and> g_variance g0 \<noteq> 0"
  by (auto simp: Gaus1D_init_def split: if_splits)

lemma gaus_update_zero_raises:
  "snd (Gaus1D_update g point) = None \<Longrightarrow> g_variance (fst (Gaus1D_update g point)) \<noteq> 0"
  by (auto simp: Gaus1D_update_def Let_def split: option.splits if_splits)

lemma gaus_update_raise_leaves_zero:
  "snd (Gaus1D_update g point) = Some AssertionError \<Longrightarrow>
     g_variance (fst (Gaus1D_update g point)) = 0"
  by (auto simp: Gaus1D_update_def Let_def split: option.splits if_splits)

text \<open>
  Claim C2, as stated, fails in three ways. The constructor asserts only that the
  variance is not zero, so \<^verbatim>\<open>Gaus1D(0, -1)\<close> is constructed with variance
  \<open>-1\<close>. An update of that object returns with variance \<open>-1/2\<close>. And the update
  of \<^verbatim>\<open>Gaus1D(0, -6, 3)\<close> with the point 4 computes the variance 0 and raises,
  but only after it has stored the 0 in the object.
\<close>

theorem gaus_negative_variance_counterexample:
  "Gaus1D_init 0 (- 1) 2 =
     Inr \<lparr> g_dist_type = ''Gaus1D'', g_mean = 0, g_variance = - 1, g_n = Some 2,
           g_M2 = Some (- 1) \<rparr>
   \<and> Gaus1D_update \<lparr> g_dist_type = ''Gaus1D'', g_mean = 0, g_variance = - 1, g_n = Some 2,
                       g_M2 = Some (- 1) \<rparr> 0 =
       (\<lparr> g_dist_type = ''Gaus1D'', g_mean = 0, g_variance = - 1 / 2, g_n = Some 3,
          g_M2 = Some (- 1) \<rparr>, None)
   \<and> Gaus1D_init 0 (- 6) 3 =
       Inr \<lparr> g_dist_type = ''Gaus1D'', g_mean = 0, g_variance = - 6, g_n = Some 3,
             g_M2 = Some (- 12) \<rparr>
   \<and> Gaus1D_update \<lparr> g_dist_type = ''Gaus1D'', g_mean = 0, g_variance = - 6, g_n = Some 3,
                       g_M2 = Some (- 12) \<rparr> 4 =
       (\<lparr> g_dist_type = ''Gaus1D'', g_mean = 1, g_variance = 0, g_n = Some 4,
          g_M2 = Some 0 \<rparr>, Some AssertionError)"
  by (simp add: Gaus1D_init_def Gaus1D_update_def Let_def)

text \<open>
  Claim C2 as amended. The variance is compared with zero only, never with its sign.
  Construction fails exactly when the variance is zero or the prior strength is below
  2; a construction that succeeds stores the variance it was given, which is not
  zero. An update that returns without an exception leaves a variance that is not
  zero. An update that raises the assertion has computed the variance zero and leaves
  it in the object. The statement rests on the two comparisons with zero and on the
  order of the statements, not on a result staying in the range of a double.
\<close>

theorem gaus_variance_guard:
  "(Gaus1D_init mean variance ps = Inl AssertionError \<longleftrightarrow> variance = 0 \<or> ps < 2)
   \<and> (Gaus1D_init mean variance ps = Inr g0 \<longrightarrow>
        g_variance g0 = variance \<and> g_variance g0 \<noteq> 0)
   \<and> (snd (Gaus1D_update g point) = None \<longrightarrow>
        g_variance (fst (Gaus1D_update g point)) \<noteq> 0)
   \<and> (snd (Gaus1D_update g' point') = Some AssertionError \<longrightarrow>
        g_variance (fst (Gaus1D_update g' point')) = 0)"
  using gaus_init_fails_iff [of mean variance ps] gaus_init_stores [of mean variance ps g0]
    gaus_update_zero_raises [of g point] gaus_update_raise_leaves_zero [of g' point']
  by blast

theorem gaus_variance_guard_witness:
  "Gaus1D_init 2 4 2 = Inr sample_g1
   \<and> g_variance sample_g1 = 4 \<and> g_variance sample_g1 \<noteq> 0
   \<and> Gaus1D_init 2 0 2 = Inl AssertionError
   \<and> snd (Gaus1D_update sample_g1 3) = None
   \<and> g_variance (fst (Gaus1D_update sample_g1 3)) = 7 / 3
   \<and> g_variance (fst (Gaus1D_update sample_g1 3)) \<noteq> 0
   \<and> snd (Gaus1D_update \<lparr> g_dist_type = ''Gaus1D'', g_mean = 0, g_variance = - 6,
                            g_n = Some 3, g_M2 = Some (- 12) \<rparr> 4) = Some AssertionError
   \<and> g_variance (fst (Gaus1D_update \<lparr> g_dist_type = ''Gaus1D'', g_mean = 0, g_variance = - 6,
                                        g_n = Some 3, g_M2 = Some (- 12) \<rparr> 4)) = 0"
proof -
  let ?z = "\<lparr> g_dist_type = ''Gaus1D'', g_mean = 0, g_variance = - 6, g_n = Some 3,
              g_M2 = Some (- 12) \<rparr>"
  have i: "Gaus1D_init 2 4 2 = Inr sample_g1" by (simp add: Gaus1D_init_def sample_g1_def)
  have z: "Gaus1D_init 2 0 2 = Inl AssertionError" by (simp add: Gaus1D_init_def)
  have u: "Gaus1D_update sample_g1 3 =
             (\<lparr> g_dist_type = ''Gaus1D'', g_mean = 7 / 3, g_variance = 7 / 3, g_n = Some 3,
                g_M2 = Some (14 / 3) \<rparr>, None)"
    by (simp add: Gaus1D_update_def Let_def sample_g1_def)
  have r: "snd (Gaus1D_update ?z 4) = Some AssertionError"
    by (simp add: Gaus1D_update_def Let_def)
  show ?thesis
    using i z u r
      gaus_variance_guard [where mean = 2 and variance = 4 and ps = 2 and ?g0.0 = sample_g1
        and g = sample_g1 and point = 3 and g' = ?z and point' = 4]
    by simp
qed

section \<open>Properties of the categorical distribution\<close>

subsection \<open>Dictionaries, ranges and well-formed objects\<close>

lemma py_range_2: "py_range 2 = [IntV 0, IntV 1]"
  by (simp add: py_range_def upt_rec numeral_eq_Suc)

lemma py_range_is_int: "k \<in> set (py_range sz) \<Longrightarrow> \<exists>i. k = IntV i"
  by (auto simp: py_range_def)

lemma distinct_py_range: "distinct (py_range sz)"
  by (simp add: py_range_def distinct_map inj_on_def)

lemma map_of_no_int_key:
  "list_all (\<lambda>kv. \<not> is_int (fst kv)) ls \<Longrightarrow> map_of ls (IntV i) = None"
  by (induction ls) (auto simp: is_int_def)

lemma label_to_index_int:
  "wf_multinomial m \<Longrightarrow> label_to_index m (IntV i) = IntV i"
  by (simp add: label_to_index_def wf_multinomial_def map_of_no_int_key)

lemma get_p_in_range:
  assumes "wf_multinomial m" and "k \<in> set (py_range (m_size m))"
  shows "\<exists>p. get_p m k = Inr p \<and> map_of (m_p m) k = Some p \<and> (k, p) \<in> set (m_p m)"
proof -
  from assms(2) obtain i where k: "k = IntV i" using py_range_is_int by blast
  have "k \<in> set (map fst (m_p m))" using assms by (simp add: wf_multinomial_def)
  then obtain p where p: "map_of (m_p m) k = Some p"
    by (metis map_of_eq_None_iff not_Some_eq set_map)
  then have "(k, p) \<in> set (m_p m)" by (rule map_of_SomeD)
  with p show ?thesis
    using assms(1) by (simp add: get_p_def k label_to_index_int)
qed


lemma keys_dict_set_existing:
  "map_of d k = Some x \<Longrightarrow> map fst (dict_set d k v) = map fst d"
  by (induction d) (auto split: if_splits)


lemma dict_set_existing:
  "distinct (map fst d) \<Longrightarrow> k \<in> set (map fst d) \<Longrightarrow>
     dict_set d k v = map (\<lambda>kv. (fst kv, if fst kv = k then v else snd kv)) d"
proof (induction d)
  case Nil
  then show ?case by simp
next
  case (Cons a d)
  show ?case
  proof (cases "fst a = k")
    case True
    then have "k \<notin> fst ` set d" using Cons.prems(1) by simp
    then have "\<forall>kv\<in>set d. fst kv \<noteq> k" by (metis imageI)
    then have "map (\<lambda>kv. (fst kv, if fst kv = k then v else snd kv)) d = d"
      by (induction d) auto
    with True show ?thesis by (cases a) simp
  next
    case False
    with Cons show ?thesis by (cases a) auto
  qed
qed

lemma map_if_all_keys:
  "set (map fst d) \<subseteq> S \<Longrightarrow>
     map (\<lambda>kv. (fst kv, if fst kv \<in> S then f kv else snd kv)) d = map (\<lambda>kv. (fst kv, f kv)) d"
  by (induction d) auto



lemma numeric_items_keys: "numeric_items d = Some items \<Longrightarrow> map fst items = map fst d"
  by (induction d arbitrary: items rule: numeric_items.induct) (auto split: option.splits)


lemma sum_list_pos_nonempty:
  "xs \<noteq> [] \<Longrightarrow> \<forall>x\<in>set xs. 0 < (x::real) \<Longrightarrow> 0 < sum_list xs"
  by (induction xs) (auto intro: add_pos_nonneg sum_list_nonneg less_imp_le)

text \<open>
  The public operations keep an object well formed: the constructor establishes the
  shape, and \<^verbatim>\<open>relabel\<close>, \<^verbatim>\<open>reset_labels\<close> and \<^verbatim>\<open>update\<close>
  preserve it.
\<close>

lemma wf_init: "Multinomial_init sz ps = Inr m \<Longrightarrow> wf_multinomial m"
  by (auto simp: Multinomial_init_def wf_multinomial_def comp_def split: pyval.splits if_splits)

lemma relabel_loop_keys:
  "relabel_loop sz labels ol ov \<Longrightarrow> list_all (\<lambda>kv. \<not> is_int (fst kv)) labels"
  by (induction sz labels ol ov rule: relabel_loop.induct) (auto split: if_splits)

lemma wf_relabel: "wf_multinomial m \<Longrightarrow> relabel m labels = Inr m' \<Longrightarrow> wf_multinomial m'"
  by (auto simp: relabel_def wf_multinomial_def relabel_loop_keys split: if_splits)

lemma wf_reset_labels: "wf_multinomial m \<Longrightarrow> wf_multinomial (reset_labels m)"
  by (simp add: reset_labels_def wf_multinomial_def)

text \<open>The update with its first two statements folded into \<open>m1\<close>.\<close>

lemma update_unfold:
  "Multinomial_update m class_label weight =
     (case numeric_items
             (m_n (case map_of (m_n m) (label_to_index m class_label) of
                     Some (Some c) \<Rightarrow>
                       m\<lparr> m_n := dict_set (m_n m) (label_to_index m class_label)
                                   (Some (c + weight)) \<rparr>
                   | _ \<Rightarrow> m)) of
        None \<Rightarrow>
          (case map_of (m_n m) (label_to_index m class_label) of
             Some (Some c) \<Rightarrow>
               m\<lparr> m_n := dict_set (m_n m) (label_to_index m class_label) (Some (c + weight)) \<rparr>
           | _ \<Rightarrow> m, Some TypeError)
      | Some items \<Rightarrow>
          if sum_list (map snd items) = 0 \<and> items \<noteq> []
          then (case map_of (m_n m) (label_to_index m class_label) of
                  Some (Some c) \<Rightarrow>
                    m\<lparr> m_n := dict_set (m_n m) (label_to_index m class_label)
                                (Some (c + weight)) \<rparr>
                | _ \<Rightarrow> m, Some ZeroDivisionError)
          else ((case map_of (m_n m) (label_to_index m class_label) of
                   Some (Some c) \<Rightarrow>
                     m\<lparr> m_n := dict_set (m_n m) (label_to_index m class_label)
                                 (Some (c + weight)) \<rparr>
                 | _ \<Rightarrow> m)
                \<lparr> m_p := map (\<lambda>(k, c). (k, c / sum_list (map snd items))) items \<rparr>, None))"
  unfolding Multinomial_update_def Let_def by (rule refl)

lemma wf_update:
  assumes "wf_multinomial m"
  shows "wf_multinomial (fst (Multinomial_update m class_label weight))"
proof -
  define m1 where "m1 = (case map_of (m_n m) (label_to_index m class_label) of
                  Some (Some c) \<Rightarrow>
                    m\<lparr> m_n := dict_set (m_n m) (label_to_index m class_label)
                                (Some (c + weight)) \<rparr>
                | _ \<Rightarrow> m)"
  have w1: "wf_multinomial m1"
    using assms
    by (auto simp: m1_def wf_multinomial_def keys_dict_set_existing split: option.splits)
  show ?thesis
  proof (cases "numeric_items (m_n m1)")
    case None
    then show ?thesis using w1 unfolding update_unfold m1_def[symmetric] by simp
  next
    case (Some items)
    have "map fst (map (\<lambda>(k, c). (k, c / t)) items) = map fst (m_n m1)" for t :: real
      using numeric_items_keys[OF Some] by (simp add: comp_def case_prod_beta)
    then show ?thesis
      using w1 unfolding update_unfold m1_def[symmetric]
      by (simp add: Some wf_multinomial_def)
  qed
qed

subsection \<open>Construction\<close>

lemma multinomial_init_seeds:
  "1 \<le> k \<Longrightarrow>
     Multinomial_init (IntV k) ps =
       Inr \<lparr> m_dist_type = ''Multinomial'',
             m_n = map (\<lambda>i. (i, Some ps)) (py_range k),
             m_p = map (\<lambda>i. (i, 1 / real_of_int k)) (py_range k),
             m_size = k, m_labeled = False, m_labels = [] \<rparr>"
  by (simp add: Multinomial_init_def)

lemma multinomial_init_rejects:
  "\<not> (\<exists>k. sz = IntV k \<and> 1 \<le> k) \<Longrightarrow> Multinomial_init sz ps = Inl AttributeError"
  by (auto simp: Multinomial_init_def split: pyval.splits)

text \<open>
  Claim C8. The claim is that a size which is no positive integer makes the
  constructor fail with the error of an invalid parameter, which the source raises
  as \<^verbatim>\<open>ValueError\<close>. At size 0 (and at a size that is a string) the constructor
  does fail, but with \<^verbatim>\<open>AttributeError\<close>: the message of the
  \<^verbatim>\<open>ValueError\<close> reads \<^verbatim>\<open>self.dist_type\<close> before it is assigned. At
  size 2 the seeds are as claimed.
\<close>

theorem multinomial_init_size_zero:
  "Multinomial_init (IntV 0) 1 = Inl AttributeError
   \<and> Multinomial_init (StrV ''2'') 1 = Inl AttributeError
   \<and> Multinomial_init (IntV 2) 1 = Inr sample_m"
  by (simp add: Multinomial_init_def sample_m_def py_range_2)

subsection \<open>Labels and class references\<close>

text \<open>
  Claim C3. The claim is that a second \<^verbatim>\<open>relabel\<close> fails. On
  \<^verbatim>\<open>Multinomial(2)\<close>, \<^verbatim>\<open>relabel({"a":0,"b":1})\<close> succeeds and
  \<^verbatim>\<open>relabel({"x":1,"y":0})\<close> right after it succeeds as well, replacing the
  labels: the method never looks at \<^verbatim>\<open>self.labeled\<close>.
\<close>

theorem relabel_twice_accepted:
  "relabel sample_m [(StrV ''a'', IntV 0), (StrV ''b'', IntV 1)] =
     Inr (sample_m\<lparr> m_labels := [(StrV ''a'', IntV 0), (StrV ''b'', IntV 1)],
                    m_labeled := True \<rparr>)
   \<and> relabel (sample_m\<lparr> m_labels := [(StrV ''a'', IntV 0), (StrV ''b'', IntV 1)],
                         m_labeled := True \<rparr>)
        [(StrV ''x'', IntV 1), (StrV ''y'', IntV 0)] =
     Inr sample_xy"
  by (simp add: relabel_def sample_m_def sample_xy_def is_int_def in_range_def)

text \<open>
  Claim C4. The claim is that an unknown label and an index out of range make every
  class-referencing operation, \<^verbatim>\<open>update\<close> included, fail. On the labelled
  sample object \<^verbatim>\<open>update("c")\<close> returns normally, and on
  \<^verbatim>\<open>Multinomial(2)\<close> so does \<^verbatim>\<open>update(5)\<close>; both leave the object as
  it was. \<^verbatim>\<open>_label_to_index\<close> passes both references through.
\<close>

theorem update_bad_reference_no_error:
  "label_to_index sample_ab (StrV ''c'') = StrV ''c''
   \<and> Multinomial_update sample_ab (StrV ''c'') 1 = (sample_ab, None)
   \<and> label_to_index sample_m (IntV 5) = IntV 5
   \<and> Multinomial_update sample_m (IntV 5) 1 = (sample_m, None)"
  by (simp add: Multinomial_update_def label_to_index_def Let_def sample_ab_def sample_m_def)

subsection \<open>Normalisation after an update\<close>









subsection \<open>Divergence of a distribution from itself\<close>

lemma KL_loop_self:
  "(\<forall>i\<in>set is. \<exists>p. get_p m i = Inr p \<and> 0 < p) \<Longrightarrow> KL_loop m m is acc = Inr acc"
  by (induction "is" arbitrary: acc) auto

lemma multinomial_kl_self:
  assumes "wf_multinomial m" and "all_p_positive m"
  shows "Multinomial_KL_Div m m = Inr 0"
proof -
  have "\<forall>i\<in>set (py_range (m_size m)). \<exists>p. get_p m i = Inr p \<and> 0 < p"
  proof
    fix i
    assume "i \<in> set (py_range (m_size m))"
    then obtain p where gp: "get_p m i = Inr p" and mem: "(i, p) \<in> set (m_p m)"
      using get_p_in_range[OF assms(1)] by blast
    have "0 < p" using assms(2) mem by (auto simp: all_p_positive_def list_all_iff)
    with gp show "\<exists>p. get_p m i = Inr p \<and> 0 < p" by blast
  qed
  then show ?thesis by (simp add: Multinomial_KL_Div_def KL_loop_self)
qed

lemma float_range_facts:
  "0 < float_underflow" "float_underflow < 1 / 2" "1 < float_overflow"
  "float_underflow < float_overflow"
  by (simp_all add: float_underflow_def float_overflow_def)

lemma fl_in_range:
  "float_underflow < x \<Longrightarrow> x < float_overflow \<Longrightarrow> fl x = Fin x"
  using float_range_facts(1) by (simp add: fl_def)

lemma fl_zero: "fl 0 = Fin 0"
  using float_range_facts(1,4) by (simp add: fl_def)

lemma gaus_kl_self:
  assumes lo: "float_underflow < g_variance g" and hi: "2 * g_variance g < float_overflow"
  shows "Gaus1D_KL_Div g g = Inr (Fin 0)"
proof -
  define v where "v = g_variance g"
  have pos: "0 < v" using lo float_range_facts(1) by (simp add: v_def)
  have sq: "sqrt v * sqrt v = v" using pos by simp
  have s0: "sqrt v \<noteq> 0" using pos by simp
  have vhi: "v < float_overflow" using hi pos by (simp add: v_def)
  have vlo: "float_underflow < v" using lo by (simp add: v_def)
  have vhi2: "2 * v < float_overflow" using hi by (simp add: v_def)
  have ratio: "fdiv (Fin (sqrt v)) (Fin (sqrt v)) = Inr (Fin 1)"
    using s0 float_range_facts by (simp add: fl_in_range)
  have lg: "flog (Fin 1) = Inr (Fin 0)" by (simp add: fl_zero)
  have s1: "fsquare (Fin (sqrt v)) = Inr (Fin v)"
    using vhi vlo pos by (simp add: fl_in_range)
  have d: "fsquare (fsub (Fin (g_mean g)) (Fin (g_mean g))) = Inr (Fin 0)"
    using float_range_facts by (simp add: fsub_def fl_zero)
  have sum: "fadd (Fin v) (Fin 0) = Fin v"
    using vhi vlo by (simp add: fl_in_range)
  have dbl: "fmul (Fin 2) (Fin v) = Fin (2 * v)"
    using vhi2 vlo pos by (simp add: fl_in_range)
  have q: "fdiv (Fin v) (Fin (2 * v)) = Inr (Fin (1 / 2))"
    using pos float_range_facts by (simp add: fl_in_range)
  have fin: "fsub (fadd (Fin 0) (Fin (1 / 2))) (Fin 0.5) = Fin 0"
    using float_range_facts by (simp add: fsub_def fl_in_range fl_zero)
  have "kl_formula (sqrt v) (sqrt v) (g_mean g) (g_mean g) = Inr (Fin 0)"
    unfolding kl_formula_def by (simp only: ratio lg s1 d sum dbl q fin sum.case)
  then show ?thesis
    using pos by (simp add: Gaus1D_KL_Div_def Let_def v_def[symmetric])
qed

text \<open>
  Claim C9, as stated, fails for the Gaussian: at the variance \<open>2^1023\<close>, a double,
  the doubling of \<^verbatim>\<open>sig_2**2\<close> overflows to infinity, the quotient is 0, and
  the divergence of \<^verbatim>\<open>Gaus1D(2.0, 2.0**1023)\<close> from itself is \<open>-1/2\<close>.
\<close>

theorem gaus_kl_self_overflow_counterexample:
  "Gaus1D_init 2 (2 ^ 1023) 2 =
     Inr \<lparr> g_dist_type = ''Gaus1D'', g_mean = 2, g_variance = 2 ^ 1023, g_n = Some 2,
           g_M2 = Some (2 ^ 1023) \<rparr>
   \<and> Gaus1D_KL_Div
        \<lparr> g_dist_type = ''Gaus1D'', g_mean = 2, g_variance = 2 ^ 1023, g_n = Some 2,
          g_M2 = Some (2 ^ 1023) \<rparr>
        \<lparr> g_dist_type = ''Gaus1D'', g_mean = 2, g_variance = 2 ^ 1023, g_n = Some 2,
          g_M2 = Some (2 ^ 1023) \<rparr> =
      Inr (Fin (- 1 / 2))"
proof -
  define v :: real where "v = 2 ^ 1023"
  have pos: "0 < v" by (simp add: v_def)
  have sq: "sqrt v * sqrt v = v" using pos by simp
  have s0: "sqrt v \<noteq> 0" using pos by simp
  have vhi: "v < float_overflow" by (simp add: v_def float_overflow_def)
  have vlo: "float_underflow < v" by (simp add: v_def float_underflow_def)
  have over: "float_overflow \<le> 2 * v" by (simp add: v_def float_overflow_def)
  have ratio: "fdiv (Fin (sqrt v)) (Fin (sqrt v)) = Inr (Fin 1)"
    using s0 float_range_facts by (simp add: fl_in_range)
  have lg: "flog (Fin 1) = Inr (Fin 0)" by (simp add: fl_zero)
  have s1: "fsquare (Fin (sqrt v)) = Inr (Fin v)"
    using vhi vlo pos by (simp add: fl_in_range)
  have d: "fsquare (fsub (Fin 2) (Fin 2)) = Inr (Fin 0)"
    using float_range_facts by (simp add: fsub_def fl_zero)
  have sum: "fadd (Fin v) (Fin 0) = Fin v"
    using vhi vlo by (simp add: fl_in_range)
  have dbl: "fmul (Fin 2) (Fin v) = PosInf"
    using over by (simp add: fl_def)
  have q: "fdiv (Fin v) PosInf = Inr (Fin 0)" by simp
  have fin: "fsub (fadd (Fin 0) (Fin 0)) (Fin 0.5) = Fin (- 1 / 2)"
    using float_range_facts by (simp add: fsub_def fl_def)
  have i: "Gaus1D_init 2 v 2 =
     Inr \<lparr> g_dist_type = ''Gaus1D'', g_mean = 2, g_variance = v, g_n = Some 2, g_M2 = Some v \<rparr>"
    using pos by (simp add: Gaus1D_init_def)
  have f: "kl_formula (sqrt v) (sqrt v) 2 2 = Inr (Fin (- 1 / 2))"
    unfolding kl_formula_def by (simp only: ratio lg s1 d sum dbl q fin sum.case)
  have k: "Gaus1D_KL_Div
        \<lparr> g_dist_type = ''Gaus1D'', g_mean = 2, g_variance = v, g_n = Some 2, g_M2 = Some v \<rparr>
        \<lparr> g_dist_type = ''Gaus1D'', g_mean = 2, g_variance = v, g_n = Some 2, g_M2 = Some v \<rparr> =
      Inr (Fin (- 1 / 2))"
    using pos f by (simp add: Gaus1D_KL_Div_def Let_def)
  from i k show ?thesis unfolding v_def by simp
qed

text \<open>
  Claim C9 as amended. The divergence from itself of a Gaussian whose variance is a
  positive double below \<open>2^1023\<close>, so that the double of \<^verbatim>\<open>sig_2**2\<close> is
  finite, is 0. The divergence from itself of a well-formed categorical object whose
  probabilities are all positive is 0. In both cases the call returns.
\<close>

theorem kl_self_zero:
  "(float_underflow < g_variance g \<and> 2 * g_variance g < float_overflow \<longrightarrow>
      Gaus1D_KL_Div g g = Inr (Fin 0))
   \<and> (wf_multinomial m \<and> all_p_positive m \<longrightarrow> Multinomial_KL_Div m m = Inr 0)"
  using gaus_kl_self [of g] multinomial_kl_self [of m] by blast

theorem kl_self_zero_witness:
  "float_underflow < g_variance sample_g1 \<and> 2 * g_variance sample_g1 < float_overflow
   \<and> Gaus1D_KL_Div sample_g1 sample_g1 = Inr (Fin 0)
   \<and> wf_multinomial sample_ab \<and> all_p_positive sample_ab
   \<and> Multinomial_KL_Div sample_ab sample_ab = Inr 0"
proof -
  have h1: "float_underflow < g_variance sample_g1" "2 * g_variance sample_g1 < float_overflow"
    by (simp_all add: sample_g1_def float_underflow_def float_overflow_def)
  have h2: "wf_multinomial sample_ab"
    by (simp add: wf_multinomial_def sample_ab_def py_range_2 is_int_def)
  have h3: "all_p_positive sample_ab" by (simp add: all_p_positive_def sample_ab_def)
  show ?thesis
    using h1 h2 h3 kl_self_zero [of sample_g1 sample_ab] by simp
qed

subsection \<open>The product\<close>

text \<open>The loop of the product writes to the new object only.\<close>

lemma mul_loop_frame:
  "mul_loop h a b c is = Inr h' \<Longrightarrow> c < length h \<Longrightarrow>
     length h' = length h \<and> (\<forall>j. j \<noteq> c \<longrightarrow> h' ! j = h ! j)
     \<and> m_labels (h' ! c) = m_labels (h ! c) \<and> m_labeled (h' ! c) = m_labeled (h ! c)
     \<and> m_size (h' ! c) = m_size (h ! c) \<and> m_dist_type (h' ! c) = m_dist_type (h ! c)"
proof (induction "is" arbitrary: h)
  case Nil
  then show ?case by simp
next
  case (Cons i rest)
  from Cons.prems(1) obtain p q where p: "get_p (h ! a) i = Inr p" and q: "get_p (h ! b) i = Inr q"
    by (auto split: sum.splits)
  define h2 where
    "h2 = h[c := set_n ((h ! c)\<lparr> m_p := dict_set (m_p (h ! c)) i (p * q) \<rparr>) i None]"
  have step: "mul_loop h a b c (i # rest) = mul_loop h2 a b c rest"
    using p q Cons.prems(2) by (simp add: Let_def h2_def)
  have c2: "c < length h2" using Cons.prems(2) by (simp add: h2_def)
  from Cons.IH[OF _ c2] Cons.prems(1) step
  have ih: "length h' = length h2 \<and> (\<forall>j. j \<noteq> c \<longrightarrow> h' ! j = h2 ! j)
     \<and> m_labels (h' ! c) = m_labels (h2 ! c) \<and> m_labeled (h' ! c) = m_labeled (h2 ! c)
     \<and> m_size (h' ! c) = m_size (h2 ! c) \<and> m_dist_type (h' ! c) = m_dist_type (h2 ! c)"
    by simp
  have "h2 ! c = set_n ((h ! c)\<lparr> m_p := dict_set (m_p (h ! c)) i (p * q) \<rparr>) i None"
    using Cons.prems(2) by (simp add: h2_def)
  then have f: "m_labels (h2 ! c) = m_labels (h ! c)" "m_labeled (h2 ! c) = m_labeled (h ! c)"
    "m_size (h2 ! c) = m_size (h ! c)" "m_dist_type (h2 ! c) = m_dist_type (h ! c)"
    by (simp_all add: set_n_def Let_def)
  have o: "\<forall>j. j \<noteq> c \<longrightarrow> h2 ! j = h ! j" by (simp add: h2_def)
  have l: "length h2 = length h" by (simp add: h2_def)
  show ?case using ih f o l by simp
qed

text \<open>
  When the new object is neither operand, the loop on the store is the loop on the
  three objects.
\<close>

lemma mul_loop_link:
  "c \<noteq> a \<Longrightarrow> c \<noteq> b \<Longrightarrow> c < length h \<Longrightarrow>
     mul_loop h a b c is =
       (case mul_loop_obj (h ! a) (h ! b) (h ! c) is of
          Inl e \<Rightarrow> Inl e
        | Inr z \<Rightarrow> Inr (h[c := z]))"
proof (induction "is" arbitrary: h)
  case Nil
  then show ?case by simp
next
  case (Cons i rest)
  show ?case
  proof (cases "get_p (h ! a) i")
    case (Inl e)
    then show ?thesis by simp
  next
    case (Inr p)
    note p = this
    show ?thesis
    proof (cases "get_p (h ! b) i")
      case (Inl e)
      with p show ?thesis by simp
    next
      case (Inr q)
      define z1 where
        "z1 = set_n ((h ! c)\<lparr> m_p := dict_set (m_p (h ! c)) i (p * q) \<rparr>) i None"
      define h2 where "h2 = h[c := z1]"
      have step: "mul_loop h a b c (i # rest) = mul_loop h2 a b c rest"
        using p Inr Cons.prems(3) by (simp add: Let_def h2_def z1_def)
      have step': "mul_loop_obj (h ! a) (h ! b) (h ! c) (i # rest) =
                   mul_loop_obj (h ! a) (h ! b) z1 rest"
        using p Inr by (simp add: z1_def)
      have c2: "c < length h2" using Cons.prems(3) by (simp add: h2_def)
      have eqs: "h2 ! a = h ! a" "h2 ! b = h ! b" "h2 ! c = z1"
        using Cons.prems by (simp_all add: h2_def)
      have "mul_loop h2 a b c rest =
              (case mul_loop_obj (h ! a) (h ! b) z1 rest of
                 Inl e \<Rightarrow> Inl e
               | Inr z \<Rightarrow> Inr (h2[c := z]))"
        using Cons.IH[OF Cons.prems(1,2) c2] by (simp add: eqs)
      moreover have "h2[c := z] = h[c := z]" for z by (simp add: h2_def)
      ultimately show ?thesis unfolding step step' by (simp split: sum.splits)
    qed
  qed
qed

lemma mul_loop_obj_wf:
  assumes x: "wf_multinomial x" and y: "wf_multinomial y"
    and sz: "m_size y = m_size x"
  shows "set is \<subseteq> set (py_range (m_size x)) \<Longrightarrow>
     m_labels z = m_labels x \<Longrightarrow> m_labeled z = m_labeled x \<Longrightarrow>
     map fst (m_p z) = py_range (m_size x) \<Longrightarrow> map fst (m_n z) = py_range (m_size x) \<Longrightarrow>
     mul_loop_obj x y z is =
       Inr (z\<lparr> m_p := map (\<lambda>kv. (fst kv, if fst kv \<in> set is
                                          then prob_of x (fst kv) * prob_of y (fst kv)
                                          else snd kv)) (m_p z),
               m_n := map (\<lambda>kv. (fst kv, if fst kv \<in> set is then None else snd kv)) (m_n z) \<rparr>)"
proof (induction "is" arbitrary: z)
  case Nil
  then show ?case by simp
next
  case (Cons i rest)
  have i: "i \<in> set (py_range (m_size x))" using Cons.prems(1) by simp
  then obtain j where j: "i = IntV j" using py_range_is_int by blast
  from get_p_in_range[OF x i] obtain p where
    p: "get_p x i = Inr p" "map_of (m_p x) i = Some p" by blast
  from i sz have iy: "i \<in> set (py_range (m_size y))" by simp
  from get_p_in_range[OF y iy] obtain q where
    q: "get_p y i = Inr q" "map_of (m_p y) i = Some q" by blast
  have pq: "prob_of x i = p" "prob_of y i = q" using p q by (simp_all add: prob_of_def)
  define z0 where "z0 = z\<lparr> m_p := dict_set (m_p z) i (p * q) \<rparr>"
  define z1 where "z1 = set_n z0 i None"
  have lz: "label_to_index z0 i = i"
    using Cons.prems(2,3) x
    by (simp add: z0_def j label_to_index_def wf_multinomial_def map_of_no_int_key)
  have dp: "dict_set (m_p z) i (p * q) =
              map (\<lambda>kv. (fst kv, if fst kv = i then p * q else snd kv)) (m_p z)"
    using Cons.prems(4) i distinct_py_range[of "m_size x"]
    by (intro dict_set_existing) simp_all
  have dn: "dict_set (m_n z) i None =
              map (\<lambda>kv. (fst kv, if fst kv = i then None else snd kv)) (m_n z)"
    using Cons.prems(5) i distinct_py_range[of "m_size x"]
    by (intro dict_set_existing) simp_all
  have z1: "z1 = z\<lparr> m_p := map (\<lambda>kv. (fst kv, if fst kv = i then p * q else snd kv)) (m_p z),
                    m_n := map (\<lambda>kv. (fst kv, if fst kv = i then None else snd kv)) (m_n z) \<rparr>"
    using lz by (simp add: z1_def set_n_def Let_def z0_def dp dn)
  have step: "mul_loop_obj x y z (i # rest) = mul_loop_obj x y z1 rest"
    using p q by (simp add: z1_def z0_def)
  have pre: "set rest \<subseteq> set (py_range (m_size x))" "m_labels z1 = m_labels x"
    "m_labeled z1 = m_labeled x" "map fst (m_p z1) = py_range (m_size x)"
    "map fst (m_n z1) = py_range (m_size x)"
    using Cons.prems by (simp_all add: z1 comp_def)
  have ih: "mul_loop_obj x y z1 rest =
       Inr (z1\<lparr> m_p := map (\<lambda>kv. (fst kv, if fst kv \<in> set rest
                                           then prob_of x (fst kv) * prob_of y (fst kv)
                                           else snd kv)) (m_p z1),
                m_n := map (\<lambda>kv. (fst kv, if fst kv \<in> set rest then None else snd kv))
                         (m_n z1) \<rparr>)"
    by (rule Cons.IH[OF pre])
  show ?case
    unfolding step ih by (auto simp: z1 comp_def pq)
qed

text \<open>
  The product of two well-formed objects of one size: the products of the
  probabilities class by class, divided by their sum.
\<close>

lemma mul_probabilities_wf:
  assumes a: "a < length h" and b: "b < length h"
    and x: "wf_multinomial (h ! a)" and y: "wf_multinomial (h ! b)"
    and sz: "m_size (h ! b) = m_size (h ! a)"
  shows "mul_probabilities h a b =
           (let prods = products (h ! a) (h ! b); norm = sum_list (map snd prods)
            in if norm = 0 \<and> prods \<noteq> [] then Inl ZeroDivisionError
               else Inr (map (\<lambda>kp. (fst kp, snd kp / norm)) prods))"
proof -
  define n where "n = length h"
  define h0 where "h0 = h @ [h ! a]"
  have e: "h0 ! a = h ! a" "h0 ! b = h ! b" "h0 ! n = h ! a" "n < length h0" "n \<noteq> a" "n \<noteq> b"
    using a b by (simp_all add: h0_def n_def nth_append)
  have keys: "map fst (m_p (h ! a)) = py_range (m_size (h ! a))"
    "map fst (m_n (h ! a)) = py_range (m_size (h ! a))"
    using x by (simp_all add: wf_multinomial_def)
  define z where
    "z = (h ! a)\<lparr> m_p := map (\<lambda>kv. (fst kv, prob_of (h ! a) (fst kv) * prob_of (h ! b) (fst kv)))
                           (m_p (h ! a)),
                  m_n := map (\<lambda>kv. (fst kv, None)) (m_n (h ! a)) \<rparr>"
  have "mul_loop_obj (h ! a) (h ! b) (h ! a) (py_range (m_size (h ! a))) =
      Inr ((h ! a)\<lparr> m_p := map (\<lambda>kv. (fst kv, if fst kv \<in> set (py_range (m_size (h ! a)))
                                then prob_of (h ! a) (fst kv) * prob_of (h ! b) (fst kv)
                                else snd kv)) (m_p (h ! a)),
               m_n := map (\<lambda>kv. (fst kv, if fst kv \<in> set (py_range (m_size (h ! a)))
                                then None else snd kv)) (m_n (h ! a)) \<rparr>)"
    by (rule mul_loop_obj_wf[OF x y sz]) (simp_all add: keys)
  then have obj: "mul_loop_obj (h ! a) (h ! b) (h ! a) (py_range (m_size (h ! a))) = Inr z"
    unfolding z_def
    by (simp only: map_if_all_keys[of "m_p (h ! a)", unfolded keys, OF subset_refl]
        map_if_all_keys[of "m_n (h ! a)", unfolded keys, OF subset_refl])
  have loop: "mul_loop h0 a b n (py_range (m_size (h0 ! a))) = Inr (h0[n := z])"
    using mul_loop_link[OF e(5) e(6) e(4), of "py_range (m_size (h ! a))"] obj
    by (simp add: e)
  have zp: "m_p z = products (h ! a) (h ! b)"
  proof -
    have "m_p z = map (\<lambda>k. (k, prob_of (h ! a) k * prob_of (h ! b) k)) (map fst (m_p (h ! a)))"
      by (simp add: z_def comp_def)
    then show ?thesis by (simp add: keys products_def)
  qed
  have "Multinomial_mul h a b =
      (let norm = sum_list (map snd (m_p z))
       in if norm = 0 \<and> m_p z \<noteq> [] then Inl ZeroDivisionError
          else Inr (h0[n := z\<lparr> m_p := map (\<lambda>(index, p). (index, p / norm)) (m_p z) \<rparr>], n))"
    unfolding Multinomial_mul_def Let_def h0_def[symmetric] n_def[symmetric]
    using sz e(4) by (simp add: loop)
  then show ?thesis
    using e(4) by (simp add: mul_probabilities_def Let_def zp case_prod_beta)
qed

lemma products_commute: "m_size y = m_size x \<Longrightarrow> products x y = products y x"
  by (simp add: products_def mult.commute)

lemma multinomial_mul_commute:
  assumes "a < length h" and "b < length h" and "wf_multinomial (h ! a)"
    and "wf_multinomial (h ! b)" and "m_size (h ! a) = m_size (h ! b)"
  shows "mul_probabilities h a b = mul_probabilities h b a"
  using assms by (simp add: mul_probabilities_wf products_commute[of "h ! b" "h ! a"])

lemma prob_of_positive:
  assumes "wf_multinomial m" and "all_p_positive m" and "k \<in> set (py_range (m_size m))"
  shows "0 < prob_of m k"
proof -
  from get_p_in_range[OF assms(1,3)] obtain p where
    "map_of (m_p m) k = Some p" "(k, p) \<in> set (m_p m)" by blast
  then show ?thesis
    using assms(2) by (auto simp: prob_of_def all_p_positive_def list_all_iff)
qed

lemma multinomial_mul_succeeds:
  assumes "a < length h" and "b < length h" and "wf_multinomial (h ! a)"
    and "wf_multinomial (h ! b)" and "m_size (h ! a) = m_size (h ! b)"
    and "all_p_positive (h ! a)" and "all_p_positive (h ! b)"
  shows "\<exists>ps. mul_probabilities h a b = Inr ps"
proof -
  define prods where "prods = products (h ! a) (h ! b)"
  have nz: "sum_list (map snd prods) \<noteq> 0" if ne: "prods \<noteq> []"
  proof -
    have "\<forall>x\<in>set (map snd prods). 0 < x"
      using assms(3-7)
      by (auto simp: prods_def products_def intro!: mult_pos_pos prob_of_positive)
    moreover have "map snd prods \<noteq> []" using ne by simp
    ultimately have "0 < sum_list (map snd prods)" by (rule sum_list_pos_nonempty[rotated])
    then show ?thesis by simp
  qed
  have eq: "mul_probabilities h a b =
           (if sum_list (map snd prods) = 0 \<and> prods \<noteq> [] then Inl ZeroDivisionError
            else Inr (map (\<lambda>kp. (fst kp, snd kp / sum_list (map snd prods))) prods))"
    using mul_probabilities_wf[OF assms(1,2,3,4) assms(5)[symmetric]]
    by (simp add: Let_def prods_def)
  show ?thesis
  proof (cases "prods = []")
    case True
    then show ?thesis unfolding eq by simp
  next
    case False
    then show ?thesis unfolding eq using nz by simp
  qed
qed

lemma gaus_mul_commute:
  assumes "0 < g_variance a" and "0 < g_variance b"
  shows "\<exists>r1 r2. Gaus1D_mul a b = Inr r1 \<and> Gaus1D_mul b a = Inr r2
        \<and> g_mean r1 = g_mean r2 \<and> g_variance r1 = g_variance r2"
proof -
  have "0 < inverse (g_variance a) + inverse (g_variance b)"
    using assms by (simp add: add_pos_pos)
  then have nz: "inverse (g_variance a) + inverse (g_variance b) \<noteq> 0" by simp
  then have nz': "inverse (g_variance b) + inverse (g_variance a) \<noteq> 0"
    by (simp add: add.commute)
  show ?thesis
    using assms nz nz' by (simp add: Gaus1D_mul_def Let_def add.commute)
qed

text \<open>
  Claim C5. For two Gaussians with positive variances both products exist and have
  the same mean and the same variance. For two well-formed categorical objects of one
  size, held at two addresses of a store, the two products have the same outcome: the
  same probability vector, or the same exception; with positive probabilities on both
  sides it is a probability vector.
\<close>

theorem fusion_commutes:
  "(0 < g_variance ga \<and> 0 < g_variance gb \<longrightarrow>
      (\<exists>r1 r2. Gaus1D_mul ga gb = Inr r1 \<and> Gaus1D_mul gb ga = Inr r2
         \<and> g_mean r1 = g_mean r2 \<and> g_variance r1 = g_variance r2))
   \<and> (a < length h \<and> b < length h \<and> wf_multinomial (h ! a) \<and> wf_multinomial (h ! b)
        \<and> m_size (h ! a) = m_size (h ! b) \<longrightarrow>
        mul_probabilities h a b = mul_probabilities h b a
        \<and> (all_p_positive (h ! a) \<and> all_p_positive (h ! b) \<longrightarrow>
             (\<exists>ps. mul_probabilities h a b = Inr ps)))"
  using gaus_mul_commute [of ga gb] multinomial_mul_commute [of a h b]
    multinomial_mul_succeeds [of a h b]
  by blast

theorem fusion_commutes_witness:
  "0 < g_variance sample_g1 \<and> 0 < g_variance sample_g2
   \<and> Gaus1D_mul sample_g1 sample_g2 =
       Inr (sample_g1\<lparr> g_variance := 16 / 5, g_mean := 2, g_M2 := None, g_n := None \<rparr>)
   \<and> Gaus1D_mul sample_g2 sample_g1 =
       Inr (sample_g2\<lparr> g_variance := 16 / 5, g_mean := 2, g_M2 := None, g_n := None \<rparr>)
   \<and> (0::nat) < length [sample_ab, sample_xy] \<and> (1::nat) < length [sample_ab, sample_xy]
   \<and> wf_multinomial ([sample_ab, sample_xy] ! 0) \<and> wf_multinomial ([sample_ab, sample_xy] ! 1)
   \<and> all_p_positive ([sample_ab, sample_xy] ! 0) \<and> all_p_positive ([sample_ab, sample_xy] ! 1)
   \<and> mul_probabilities [sample_ab, sample_xy] 0 1 = Inr [(IntV 0, 2 / 3), (IntV 1, 1 / 3)]
   \<and> mul_probabilities [sample_ab, sample_xy] 1 0 = Inr [(IntV 0, 2 / 3), (IntV 1, 1 / 3)]"
proof -
  have g: "0 < g_variance sample_g1" "0 < g_variance sample_g2"
    by (simp_all add: sample_g1_def sample_g2_def)
  have m12: "Gaus1D_mul sample_g1 sample_g2 =
       Inr (sample_g1\<lparr> g_variance := 16 / 5, g_mean := 2, g_M2 := None, g_n := None \<rparr>)"
    by (simp add: Gaus1D_mul_def Let_def sample_g1_def sample_g2_def)
  have m21: "Gaus1D_mul sample_g2 sample_g1 =
       Inr (sample_g2\<lparr> g_variance := 16 / 5, g_mean := 2, g_M2 := None, g_n := None \<rparr>)"
    by (simp add: Gaus1D_mul_def Let_def sample_g1_def sample_g2_def)
  have w: "wf_multinomial ([sample_ab, sample_xy] ! 0)" "wf_multinomial ([sample_ab, sample_xy] ! 1)"
    by (simp_all add: wf_multinomial_def sample_ab_def sample_xy_def py_range_2 is_int_def)
  have pp: "all_p_positive ([sample_ab, sample_xy] ! 0)"
    "all_p_positive ([sample_ab, sample_xy] ! 1)"
    by (simp_all add: all_p_positive_def sample_ab_def sample_xy_def)
  have p01: "mul_probabilities [sample_ab, sample_xy] 0 1 =
               Inr [(IntV 0, 2 / 3), (IntV 1, 1 / 3)]"
    by (simp add: mul_probabilities_def Multinomial_mul_def Let_def py_range_2 sample_ab_def
        sample_xy_def get_p_def label_to_index_def set_n_def)
  have sz: "m_size ([sample_ab, sample_xy] ! 0) = m_size ([sample_ab, sample_xy] ! 1)"
    by (simp add: sample_ab_def sample_xy_def)
  show ?thesis
    using g m12 m21 w pp p01 sz
      fusion_commutes [where ga = sample_g1 and gb = sample_g2 and a = 0 and b = 1
        and h = "[sample_ab, sample_xy]"]
    by simp
qed

text \<open>
  Claim C10. When the product of the objects at two addresses of a store returns,
  its result is a new object at a fresh address; every object that was in the store,
  both operands among them, is as it was; the new object has the
  \<^verbatim>\<open>labeled\<close> flag and the \<^verbatim>\<open>labels\<close> of the left operand, so a
  class reference resolves on it as it does on the left operand, whatever labels the
  right operand carries; its size and type tag are the left operand's too.
\<close>

theorem multinomial_mul_copy:
  assumes "self < length h" and "b1 < length h" and "Multinomial_mul h self b1 = Inr (h', c)"
  shows "c = length h \<and> length h' = Suc (length h)
       \<and> (\<forall>j < length h. h' ! j = h ! j)
       \<and> m_labeled (h' ! c) = m_labeled (h ! self)
       \<and> m_labels (h' ! c) = m_labels (h ! self)
       \<and> m_size (h' ! c) = m_size (h ! self)
       \<and> m_dist_type (h' ! c) = m_dist_type (h ! self)
       \<and> (\<forall>r. label_to_index (h' ! c) r = label_to_index (h ! self) r)
       \<and> (\<forall>r. get_p (h' ! c) r =
               (case map_of (m_p (h' ! c)) (label_to_index (h ! self) r) of
                  None \<Rightarrow> Inl KeyError
                | Some p \<Rightarrow> Inr p))"
proof -
  define h0 where "h0 = h @ [h ! self]"
  define n where "n = length h"
  from assms(3) obtain h1 where
    loop: "mul_loop h0 self b1 n (py_range (m_size (h0 ! self))) = Inr h1"
    and c: "c = n"
    and h': "h' = h1[n := (h1 ! n)\<lparr> m_p := map (\<lambda>(index, p).
                 (index, p / sum_list (map snd (m_p (h1 ! n))))) (m_p (h1 ! n)) \<rparr>]"
    unfolding Multinomial_mul_def Let_def h0_def[symmetric] n_def[symmetric]
    by (auto split: if_splits sum.splits)
  have n0: "n < length h0" by (simp add: h0_def n_def)
  from mul_loop_frame[OF loop n0]
  have fr: "length h1 = length h0" "\<forall>j. j \<noteq> n \<longrightarrow> h1 ! j = h0 ! j"
    "m_labels (h1 ! n) = m_labels (h0 ! n)" "m_labeled (h1 ! n) = m_labeled (h0 ! n)"
    "m_size (h1 ! n) = m_size (h0 ! n)" "m_dist_type (h1 ! n) = m_dist_type (h0 ! n)"
    by simp_all
  have h0n: "h0 ! n = h ! self" by (simp add: h0_def n_def)
  have len: "length h' = Suc (length h)" using fr(1) by (simp add: h' h0_def)
  have old: "\<forall>j < length h. h' ! j = h ! j"
    using fr(2) by (auto simp: h' h0_def n_def nth_append)
  have hc: "h' ! c = (h1 ! n)\<lparr> m_p := map (\<lambda>(index, p).
                 (index, p / sum_list (map snd (m_p (h1 ! n))))) (m_p (h1 ! n)) \<rparr>"
    using fr(1) n0 by (simp add: h' c)
  have lab: "m_labeled (h' ! c) = m_labeled (h ! self)" "m_labels (h' ! c) = m_labels (h ! self)"
    "m_size (h' ! c) = m_size (h ! self)" "m_dist_type (h' ! c) = m_dist_type (h ! self)"
    using fr(3,4,5,6) h0n by (simp_all add: hc)
  have l2i: "\<forall>r. label_to_index (h' ! c) r = label_to_index (h ! self) r"
    using lab(1,2) by (simp add: label_to_index_def)
  have gp: "\<forall>r. get_p (h' ! c) r =
               (case map_of (m_p (h' ! c)) (label_to_index (h ! self) r) of
                  None \<Rightarrow> Inl KeyError
                | Some p \<Rightarrow> Inr p)"
    using l2i by (simp add: get_p_def)
  show ?thesis using c n_def len old lab l2i gp by blast
qed

theorem multinomial_mul_copy_witness:
  "(0::nat) < length [sample_ab, sample_xy] \<and> (1::nat) < length [sample_ab, sample_xy]
   \<and> Multinomial_mul [sample_ab, sample_xy] 0 1 =
       Inr ([sample_ab, sample_xy,
             sample_ab\<lparr> m_n := [(IntV 0, None), (IntV 1, None)] \<rparr>], 2)
   \<and> m_labels (sample_ab\<lparr> m_n := [(IntV 0, None), (IntV 1, None)] \<rparr>) =
       [(StrV ''a'', IntV 0), (StrV ''b'', IntV 1)]
   \<and> label_to_index (sample_ab\<lparr> m_n := [(IntV 0, None), (IntV 1, None)] \<rparr>) (StrV ''a'') = IntV 0
   \<and> get_p (sample_ab\<lparr> m_n := [(IntV 0, None), (IntV 1, None)] \<rparr>) (StrV ''a'') = Inr (2 / 3)
   \<and> label_to_index sample_xy (StrV ''x'') = IntV 1
   \<and> label_to_index (sample_ab\<lparr> m_n := [(IntV 0, None), (IntV 1, None)] \<rparr>) (StrV ''x'') = StrV ''x''"
proof -
  let ?c = "sample_ab\<lparr> m_n := [(IntV 0, None), (IntV 1, None)] \<rparr>"
  have h1: "(0::nat) < length [sample_ab, sample_xy]" by simp
  have h2: "(1::nat) < length [sample_ab, sample_xy]" by simp
  have h3: "Multinomial_mul [sample_ab, sample_xy] 0 1 = Inr ([sample_ab, sample_xy, ?c], 2)"
    by (simp add: Multinomial_mul_def Let_def py_range_2 sample_ab_def sample_xy_def get_p_def
        label_to_index_def set_n_def)
  have e: "m_labels ?c = [(StrV ''a'', IntV 0), (StrV ''b'', IntV 1)]"
    "label_to_index ?c (StrV ''a'') = IntV 0" "get_p ?c (StrV ''a'') = Inr (2 / 3)"
    "label_to_index sample_xy (StrV ''x'') = IntV 1"
    "label_to_index ?c (StrV ''x'') = StrV ''x''"
    by (simp_all add: sample_ab_def sample_xy_def label_to_index_def get_p_def)
  show ?thesis
    using h1 h2 h3 e multinomial_mul_copy [OF h1 h2 h3] by simp
qed

section \<open>Properties of the decoders\<close>

lemma py_float_rejects:
  "v = JNull \<or> (\<exists>xs. v = JArr xs) \<or> (\<exists>ms. v = JObj ms) \<or> (\<exists>t. v = JStr t \<and> pf t = None)
     \<or> (\<exists>i. v = JInt i \<and> float_overflow \<le> \<bar>real_of_int i\<bar>) \<Longrightarrow>
     \<exists>e. py_float pf v = Inl e"
  by (auto simp: py_float_def)

lemma gaus_decode_missing:
  assumes "k \<in> set [''mean'', ''variance'', ''M2'', ''n'', ''dist_type'']"
    and "\<forall>v. json_getitem obj k \<noteq> Inr v"
  shows "gaus_1D_from_json pf ps obj = Inl ValueError"
  using assms by (auto simp: gaus_1D_from_json_def split: sum.splits)

lemma gaus_decode_unconvertible:
  assumes "k \<in> set [''mean'', ''variance'', ''M2'', ''n'']"
    and "json_getitem obj k = Inr v" and "\<exists>e. py_float pf v = Inl e"
  shows "gaus_1D_from_json pf ps obj = Inl ValueError"
  using assms by (auto simp: gaus_1D_from_json_def split: sum.splits)

lemma gaus_decode_success:
  assumes "gaus_1D_from_json pf ps obj = Inr g"
  shows "\<exists>j1 j2 j3 j4 j5 n M2.
           json_getitem obj ''mean'' = Inr j1 \<and> py_float pf j1 = Inr (g_mean g)
         \<and> json_getitem obj ''variance'' = Inr j2 \<and> py_float pf j2 = Inr (g_variance g)
         \<and> json_getitem obj ''M2'' = Inr j3 \<and> py_float pf j3 = Inr M2 \<and> g_M2 g = Some M2
         \<and> json_getitem obj ''n'' = Inr j4 \<and> py_float pf j4 = Inr n \<and> g_n g = Some n
         \<and> json_getitem obj ''dist_type'' = Inr j5 \<and> g_dist_type g = py_str ps j5"
  using assms by (auto simp: gaus_1D_from_json_def split: sum.splits)

lemma multinomial_decode_success:
  assumes "multinomial_from_json obj = Inr r"
  shows "(\<exists>items. json_getitem obj ''_n'' = Inr (JObj items) \<and> int_keyed items [] = Inr (r_n r))
       \<and> (\<exists>items. json_getitem obj ''_p'' = Inr (JObj items) \<and> int_keyed items [] = Inr (r_p r))
       \<and> json_getitem obj ''size'' = Inr (r_size r)
       \<and> json_getitem obj ''labeled'' = Inr (r_labeled r)
       \<and> json_getitem obj ''labels'' = Inr (r_labels r)
       \<and> json_getitem obj ''dist_type'' = Inr (r_dist_type r)"
  using assms
  by (auto simp: multinomial_from_json_def json_items_def split: sum.splits json.splits)

text \<open>
  Claim C7, as stated, fails in both decoders. The Gaussian decoder converts what
  \<^verbatim>\<open>float\<close> converts: an encoding whose mean is \<^verbatim>\<open>true\<close> and whose
  variance is the text \<open>1.5\<close> is decoded, to the mean 1 and the variance 3/2 (the
  parser of number text is taken here at the one text it is given). The categorical
  decoder examines nothing: an encoding whose count is the text \<open>abc\<close>, whose
  probability is \<^verbatim>\<open>null\<close> and whose size is the text \<open>three\<close> is decoded
  and the object holds these values; and an encoding without \<^verbatim>\<open>size\<close> is
  refused with \<^verbatim>\<open>KeyError\<close>, not with the \<^verbatim>\<open>ValueError\<close> that
  the Gaussian decoder raises for a missing field.
\<close>

theorem decode_unchecked_counterexample:
  "gaus_1D_from_json (\<lambda>t. if t = ''1.5'' then Some (3 / 2) else None) (\<lambda>v. ''?'')
     (JObj [(''mean'', JBool True), (''variance'', JStr ''1.5''), (''M2'', JInt 4),
            (''n'', JInt 2), (''dist_type'', JStr ''Gaus1D'')]) =
     Inr \<lparr> g_dist_type = ''Gaus1D'', g_mean = 1, g_variance = 3 / 2, g_n = Some 2,
           g_M2 = Some 4 \<rparr>
   \<and> multinomial_from_json
       (JObj [(''_n'', JObj [(''0'', JStr ''abc'')]), (''_p'', JObj [(''0'', JNull)]),
              (''size'', JStr ''three''), (''labeled'', JBool False), (''labels'', JObj []),
              (''dist_type'', JStr ''Multinomial'')]) =
       Inr \<lparr> r_n = [(0, JStr ''abc'')], r_p = [(0, JNull)], r_size = JStr ''three'',
             r_labeled = JBool False, r_labels = JObj [], r_dist_type = JStr ''Multinomial'' \<rparr>
   \<and> multinomial_from_json
       (JObj [(''_n'', JObj [(''0'', JInt 1)]), (''_p'', JObj [(''0'', JFloat 1)]),
              (''labeled'', JBool False), (''labels'', JObj []),
              (''dist_type'', JStr ''Multinomial'')]) = Inl KeyError"
  by (simp add: gaus_1D_from_json_def py_float_def py_str_def float_overflow_def
      multinomial_from_json_def json_getitem_def json_items_def py_int_def
      is_space_def is_digit_def digit_value_def)

text \<open>
  Claim C7 as amended. Decoding a Gaussian fails with \<^verbatim>\<open>ValueError\<close> when one
  of \<^verbatim>\<open>mean\<close>, \<^verbatim>\<open>variance\<close>, \<^verbatim>\<open>M2\<close>, \<^verbatim>\<open>n\<close>,
  \<^verbatim>\<open>dist_type\<close> is missing, and when one of the four numeric fields holds a
  value that \<^verbatim>\<open>float\<close> does not convert: \<^verbatim>\<open>null\<close>, a list, an object,
  text that is not read as a number, or an integer too large for a double. When
  either decoder succeeds, every attribute comes from the encoding: no field is given
  a default. What the categorical decoder does with a missing or non-numeric field is
  left out of the amended claim.
\<close>

theorem decode_fails_on_missing:
  "(k \<in> set [''mean'', ''variance'', ''M2'', ''n'', ''dist_type'']
      \<and> (\<forall>v. json_getitem obj k \<noteq> Inr v) \<longrightarrow>
      gaus_1D_from_json pf ps obj = Inl ValueError)
   \<and> (k' \<in> set [''mean'', ''variance'', ''M2'', ''n''] \<and> json_getitem obj' k' = Inr v'
        \<and> (v' = JNull \<or> (\<exists>xs. v' = JArr xs) \<or> (\<exists>ms. v' = JObj ms)
             \<or> (\<exists>t. v' = JStr t \<and> pf t = None)
             \<or> (\<exists>i. v' = JInt i \<and> float_overflow \<le> \<bar>real_of_int i\<bar>)) \<longrightarrow>
        gaus_1D_from_json pf ps obj' = Inl ValueError)
   \<and> (gaus_1D_from_json pf ps obj'' = Inr g \<longrightarrow>
        (\<exists>j1 j2 j3 j4 j5 n M2.
           json_getitem obj'' ''mean'' = Inr j1 \<and> py_float pf j1 = Inr (g_mean g)
         \<and> json_getitem obj'' ''variance'' = Inr j2 \<and> py_float pf j2 = Inr (g_variance g)
         \<and> json_getitem obj'' ''M2'' = Inr j3 \<and> py_float pf j3 = Inr M2 \<and> g_M2 g = Some M2
         \<and> json_getitem obj'' ''n'' = Inr j4 \<and> py_float pf j4 = Inr n \<and> g_n g = Some n
         \<and> json_getitem obj'' ''dist_type'' = Inr j5 \<and> g_dist_type g = py_str ps j5))
   \<and> (multinomial_from_json objc = Inr r \<longrightarrow>
        (\<exists>items. json_getitem objc ''_n'' = Inr (JObj items)
                  \<and> int_keyed items [] = Inr (r_n r))
        \<and> (\<exists>items. json_getitem objc ''_p'' = Inr (JObj items)
                    \<and> int_keyed items [] = Inr (r_p r))
        \<and> json_getitem objc ''size'' = Inr (r_size r)
        \<and> json_getitem objc ''labeled'' = Inr (r_labeled r)
        \<and> json_getitem objc ''labels'' = Inr (r_labels r)
        \<and> json_getitem objc ''dist_type'' = Inr (r_dist_type r))"
proof -
  have a: "k \<in> set [''mean'', ''variance'', ''M2'', ''n'', ''dist_type'']
      \<and> (\<forall>v. json_getitem obj k \<noteq> Inr v) \<longrightarrow>
      gaus_1D_from_json pf ps obj = Inl ValueError"
    using gaus_decode_missing [of k obj pf ps] by blast
  have b: "k' \<in> set [''mean'', ''variance'', ''M2'', ''n''] \<and> json_getitem obj' k' = Inr v'
        \<and> (v' = JNull \<or> (\<exists>xs. v' = JArr xs) \<or> (\<exists>ms. v' = JObj ms)
             \<or> (\<exists>t. v' = JStr t \<and> pf t = None)
             \<or> (\<exists>i. v' = JInt i \<and> float_overflow \<le> \<bar>real_of_int i\<bar>)) \<longrightarrow>
        gaus_1D_from_json pf ps obj' = Inl ValueError"
    using gaus_decode_unconvertible [of k' obj' v' pf ps] py_float_rejects [of v' pf] by blast
  have c: "gaus_1D_from_json pf ps obj'' = Inr g \<longrightarrow>
        (\<exists>j1 j2 j3 j4 j5 n M2.
           json_getitem obj'' ''mean'' = Inr j1 \<and> py_float pf j1 = Inr (g_mean g)
         \<and> json_getitem obj'' ''variance'' = Inr j2 \<and> py_float pf j2 = Inr (g_variance g)
         \<and> json_getitem obj'' ''M2'' = Inr j3 \<and> py_float pf j3 = Inr M2 \<and> g_M2 g = Some M2
         \<and> json_getitem obj'' ''n'' = Inr j4 \<and> py_float pf j4 = Inr n \<and> g_n g = Some n
         \<and> json_getitem obj'' ''dist_type'' = Inr j5 \<and> g_dist_type g = py_str ps j5)"
    using gaus_decode_success [of pf ps obj'' g] by blast
  have d: "multinomial_from_json objc = Inr r \<longrightarrow>
        (\<exists>items. json_getitem objc ''_n'' = Inr (JObj items)
                  \<and> int_keyed items [] = Inr (r_n r))
        \<and> (\<exists>items. json_getitem objc ''_p'' = Inr (JObj items)
                    \<and> int_keyed items [] = Inr (r_p r))
        \<and> json_getitem objc ''size'' = Inr (r_size r)
        \<and> json_getitem objc ''labeled'' = Inr (r_labeled r)
        \<and> json_getitem objc ''labels'' = Inr (r_labels r)
        \<and> json_getitem objc ''dist_type'' = Inr (r_dist_type r)"
    using multinomial_decode_success [of objc r] by blast
  from a b c d show ?thesis by (intro conjI)
qed

theorem decode_fails_on_missing_witness:
  "''M2'' \<in> set [''mean'', ''variance'', ''M2'', ''n'', ''dist_type'']
   \<and> (\<forall>v. json_getitem (JObj [(''mean'', JInt 2), (''variance'', JFloat 4), (''n'', JInt 2),
                                (''dist_type'', JStr ''Gaus1D'')]) ''M2'' \<noteq> Inr v)
   \<and> gaus_1D_from_json (\<lambda>t. None) (\<lambda>v. ''?'')
       (JObj [(''mean'', JInt 2), (''variance'', JFloat 4), (''n'', JInt 2),
              (''dist_type'', JStr ''Gaus1D'')]) = Inl ValueError
   \<and> json_getitem (JObj [(''mean'', JNull), (''variance'', JFloat 4), (''M2'', JFloat 4),
                          (''n'', JInt 2), (''dist_type'', JStr ''Gaus1D'')]) ''mean'' = Inr JNull
   \<and> gaus_1D_from_json (\<lambda>t. None) (\<lambda>v. ''?'')
       (JObj [(''mean'', JNull), (''variance'', JFloat 4), (''M2'', JFloat 4), (''n'', JInt 2),
              (''dist_type'', JStr ''Gaus1D'')]) = Inl ValueError
   \<and> gaus_1D_from_json (\<lambda>t. None) (\<lambda>v. ''?'')
       (JObj [(''mean'', JFloat 2), (''variance'', JFloat 4), (''M2'', JFloat 4), (''n'', JInt 2),
              (''dist_type'', JStr ''Gaus1D'')]) = Inr sample_g1
   \<and> multinomial_from_json
       (JObj [(''_n'', JObj [(''0'', JInt 1)]), (''_p'', JObj [(''0'', JFloat 1)]),
              (''size'', JInt 1), (''labeled'', JBool False), (''labels'', JObj []),
              (''dist_type'', JStr ''Multinomial'')]) =
       Inr \<lparr> r_n = [(0, JInt 1)], r_p = [(0, JFloat 1)], r_size = JInt 1,
             r_labeled = JBool False, r_labels = JObj [], r_dist_type = JStr ''Multinomial'' \<rparr>"
proof -
  let ?o1 = "JObj [(''mean'', JInt 2), (''variance'', JFloat 4), (''n'', JInt 2),
                   (''dist_type'', JStr ''Gaus1D'')]"
  let ?o2 = "JObj [(''mean'', JNull), (''variance'', JFloat 4), (''M2'', JFloat 4), (''n'', JInt 2),
                   (''dist_type'', JStr ''Gaus1D'')]"
  let ?o3 = "JObj [(''mean'', JFloat 2), (''variance'', JFloat 4), (''M2'', JFloat 4),
                   (''n'', JInt 2), (''dist_type'', JStr ''Gaus1D'')]"
  let ?c2 = "JObj [(''_n'', JObj [(''0'', JInt 1)]), (''_p'', JObj [(''0'', JFloat 1)]),
                   (''size'', JInt 1), (''labeled'', JBool False), (''labels'', JObj []),
                   (''dist_type'', JStr ''Multinomial'')]"
  let ?r2 = "\<lparr> r_n = [(0, JInt 1)], r_p = [(0, JFloat 1)], r_size = JInt 1,
               r_labeled = JBool False, r_labels = JObj [], r_dist_type = JStr ''Multinomial'' \<rparr>"
  have h1: "\<forall>v. json_getitem ?o1 ''M2'' \<noteq> Inr v" by (simp add: json_getitem_def)
  have h2: "json_getitem ?o2 ''mean'' = Inr JNull" by (simp add: json_getitem_def)
  have h3: "gaus_1D_from_json (\<lambda>t. None) (\<lambda>v. ''?'') ?o3 = Inr sample_g1"
    by (simp add: gaus_1D_from_json_def json_getitem_def py_float_def py_str_def sample_g1_def
        float_overflow_def)
  have h4: "multinomial_from_json ?c2 = Inr ?r2"
    by (simp add: multinomial_from_json_def json_getitem_def json_items_def py_int_def
        is_space_def is_digit_def digit_value_def)
  show ?thesis
    using h1 h2 h3 h4
      decode_fails_on_missing [where k = "''M2''" and obj = ?o1 and pf = "\<lambda>t. None"
        and ps = "\<lambda>v. ''?''" and k' = "''mean''" and obj' = ?o2 and v' = JNull
        and obj'' = ?o3 and g = sample_g1 and objc = ?c2 and r = ?r2]
    by simp
qed

end
